theory Spec2Isabelle
  imports Complex_Main
begin

section \<open>Python values and the operations of lib/forecast.py on them\<close>

text \<open>
  The forecast module works on dynamically typed data: the decoded JSON of a provider,
  the \<open>metData\<close> dictionary it fills, and the values the helper modules return.
  All of them are values of one type. Python floats are idealised as rationals: the
  arithmetic of the module (one division or multiplication per wind speed, one
  multiplication per precipitation probability) is exact here and rounded to a double
  in Python.
\<close>

record datetime =
  year :: nat
  month :: nat
  day :: nat
  hour :: int
  minute :: nat

datatype pyval =
    PNone
  | PBool bool
  | PInt int
  | PFloat rat
  | PStr string
  | PList "pyval list"
  | PDict "(string \<times> pyval) list"
  | PDatetime datetime

datatype py_error = KeyError | IndexError | ValueError | TypeError | OverflowError

text \<open>Sequencing of fallible expressions: the first exception raised ends the evaluation.\<close>

definition and_then :: "py_error + 'a \<Rightarrow> ('a \<Rightarrow> py_error + 'b) \<Rightarrow> py_error + 'b" where
  "and_then r f = (case r of Inl e \<Rightarrow> Inl e | Inr v \<Rightarrow> f v)"

fun map_err :: "('a \<Rightarrow> py_error + 'b) \<Rightarrow> 'a list \<Rightarrow> py_error + 'b list" where
  "map_err f [] = Inr []"
| "map_err f (x # xs) =
     (case f x of
        Inl e \<Rightarrow> Inl e
      | Inr y \<Rightarrow> (case map_err f xs of Inl e \<Rightarrow> Inl e | Inr ys \<Rightarrow> Inr (y # ys)))"

text \<open>\<open>v[k]\<close> for a string key: a dictionary raises KeyError for a missing key, every
  other value raises TypeError.\<close>

definition getitem :: "pyval \<Rightarrow> string \<Rightarrow> py_error + pyval" where
  "getitem v k =
     (case v of
        PDict kvs \<Rightarrow> (case map_of kvs k of None \<Rightarrow> Inl KeyError | Some x \<Rightarrow> Inr x)
      | _ \<Rightarrow> Inl TypeError)"

text \<open>\<open>xs[i]\<close> on a Python list: a negative index counts from the end, an index out of
  range raises IndexError.\<close>

definition list_index :: "'a list \<Rightarrow> int \<Rightarrow> py_error + 'a" where
  "list_index xs i =
     (if i < - int (length xs) \<or> int (length xs) \<le> i then Inl IndexError
      else if i < 0 then Inr (xs ! (length xs - nat (- i)))
      else Inr (xs ! nat i))"

text \<open>\<open>v[i]\<close> for an integer index on any value: lists and strings are indexed, a
  dictionary decoded from JSON has string keys only and raises KeyError, the rest raises
  TypeError.\<close>

definition getitem_int :: "pyval \<Rightarrow> int \<Rightarrow> py_error + pyval" where
  "getitem_int v i =
     (case v of
        PList xs \<Rightarrow> list_index xs i
      | PStr s \<Rightarrow> (case list_index s i of Inl e \<Rightarrow> Inl e | Inr c \<Rightarrow> Inr (PStr [c]))
      | PDict kvs \<Rightarrow> Inl KeyError
      | _ \<Rightarrow> Inl TypeError)"

text \<open>The slice \<open>v[11:-4]\<close>.\<close>

definition slice_11_m4 :: "pyval \<Rightarrow> py_error + pyval" where
  "slice_11_m4 v =
     (case v of
        PStr s \<Rightarrow> Inr (PStr (drop 11 (take (length s - 4) s)))
      | PList xs \<Rightarrow> Inr (PList (drop 11 (take (length xs - 4) xs)))
      | _ \<Rightarrow> Inl TypeError)"

text \<open>\<open>for item in v\<close>: the elements of a list, the keys of a dictionary, the characters
  of a string.\<close>

definition py_iter :: "pyval \<Rightarrow> py_error + pyval list" where
  "py_iter v =
     (case v of
        PList xs \<Rightarrow> Inr xs
      | PDict kvs \<Rightarrow> Inr (map (\<lambda>kv. PStr (fst kv)) kvs)
      | PStr s \<Rightarrow> Inr (map (\<lambda>c. PStr [c]) s)
      | _ \<Rightarrow> Inl TypeError)"

text \<open>\<open>xs.index(x)\<close>: the first position holding a value equal to \<open>x\<close>, ValueError when
  there is none.\<close>

fun index_from :: "nat \<Rightarrow> 'a list \<Rightarrow> 'a \<Rightarrow> py_error + nat" where
  "index_from i [] x = Inl ValueError"
| "index_from i (y # ys) x = (if y = x then Inr i else index_from (Suc i) ys x)"

definition index_of :: "'a list \<Rightarrow> 'a \<Rightarrow> py_error + nat" where
  "index_of xs x = index_from 0 xs x"

subsection \<open>Numbers\<close>

text \<open>The numeric value of an operand of \<open>/\<close>, \<open>*\<close> or \<open><\<close>; \<open>bool\<close> is a subclass of
  \<open>int\<close> in Python.\<close>

definition py_number :: "pyval \<Rightarrow> rat option" where
  "py_number v =
     (case v of
        PInt i \<Rightarrow> Some (of_int i)
      | PFloat r \<Rightarrow> Some r
      | PBool b \<Rightarrow> Some (if b then 1 else 0)
      | _ \<Rightarrow> None)"

text \<open>\<open>v / c\<close> and \<open>v * c\<close> for a float constant \<open>c\<close>.\<close>

definition py_truediv :: "pyval \<Rightarrow> rat \<Rightarrow> py_error + pyval" where
  "py_truediv v c = (case py_number v of None \<Rightarrow> Inl TypeError | Some x \<Rightarrow> Inr (PFloat (x / c)))"

definition py_mul_float :: "pyval \<Rightarrow> rat \<Rightarrow> py_error + pyval" where
  "py_mul_float v c = (case py_number v of None \<Rightarrow> Inl TypeError | Some x \<Rightarrow> Inr (PFloat (x * c)))"

text \<open>\<open>v * 100\<close> for the integer 100: an integer stays an integer, a string or a list is
  repeated.\<close>

definition py_mul_100 :: "pyval \<Rightarrow> py_error + pyval" where
  "py_mul_100 v =
     (case v of
        PInt i \<Rightarrow> Inr (PInt (i * 100))
      | PBool b \<Rightarrow> Inr (PInt (if b then 100 else 0))
      | PFloat r \<Rightarrow> Inr (PFloat (r * 100))
      | PStr s \<Rightarrow> Inr (PStr (concat (replicate 100 s)))
      | PList xs \<Rightarrow> Inr (PList (concat (replicate 100 xs)))
      | _ \<Rightarrow> Inl TypeError)"

text \<open>\<open>x < v\<close> for an integer \<open>x\<close>, as \<open>bisect\<close> evaluates it.\<close>

definition py_lt :: "int \<Rightarrow> pyval \<Rightarrow> py_error + bool" where
  "py_lt x v = (case py_number v of None \<Rightarrow> Inl TypeError | Some y \<Rightarrow> Inr (of_int x < y))"

definition int_lt :: "int \<Rightarrow> int \<Rightarrow> py_error + bool" where
  "int_lt x y = Inr (x < y)"

subsection \<open>\<open>int()\<close> of a string\<close>

definition is_space :: "char \<Rightarrow> bool" where
  "is_space c = (c \<in> set [CHR 0x20, CHR 0x09, CHR 0x0A, CHR 0x0B, CHR 0x0C, CHR 0x0D,
                          CHR 0x1C, CHR 0x1D, CHR 0x1E, CHR 0x1F])"

definition is_digit :: "char \<Rightarrow> bool" where
  "is_digit c = (c \<in> set ''0123456789'')"

definition digit_val :: "char \<Rightarrow> nat" where
  "digit_val c = of_char c - 48"

text \<open>Decimal digits, with single underscores allowed between digits.\<close>

fun parse_digits :: "nat \<Rightarrow> bool \<Rightarrow> string \<Rightarrow> nat option" where
  "parse_digits acc prev [] = (if prev then Some acc else None)"
| "parse_digits acc prev (c # cs) =
     (if is_digit c then parse_digits (10 * acc + digit_val c) True cs
      else if c = CHR ''_'' \<and> prev then parse_digits acc False cs
      else None)"

definition strip :: "string \<Rightarrow> string" where
  "strip s = rev (dropWhile is_space (rev (dropWhile is_space s)))"

definition int_of_str :: "string \<Rightarrow> py_error + int" where
  "int_of_str s =
     (case strip s of
        [] \<Rightarrow> Inl ValueError
      | c # cs \<Rightarrow>
          (if c = CHR ''-'' then
             (case parse_digits 0 False cs of None \<Rightarrow> Inl ValueError | Some n \<Rightarrow> Inr (- int n))
           else if c = CHR ''+'' then
             (case parse_digits 0 False cs of None \<Rightarrow> Inl ValueError | Some n \<Rightarrow> Inr (int n))
           else
             (case parse_digits 0 False (c # cs) of None \<Rightarrow> Inl ValueError | Some n \<Rightarrow> Inr (int n))))"

text \<open>\<open>int(v)\<close>: a float is truncated towards zero.\<close>

definition py_int :: "pyval \<Rightarrow> py_error + int" where
  "py_int v =
     (case v of
        PInt i \<Rightarrow> Inr i
      | PBool b \<Rightarrow> Inr (if b then 1 else 0)
      | PFloat r \<Rightarrow> Inr (if r < 0 then - \<lfloor>- r\<rfloor> else \<lfloor>r\<rfloor>)
      | PStr s \<Rightarrow> int_of_str s
      | _ \<Rightarrow> Inl TypeError)"

subsection \<open>String formatting\<close>

function show_nat :: "nat \<Rightarrow> string" where
  "show_nat n =
     (if n < 10 then [''0123456789'' ! n]
      else show_nat (n div 10) @ [''0123456789'' ! (n mod 10)])"
  by pat_completeness auto
termination
  by (relation "measure id") auto

declare show_nat.simps [simp del]

definition zfill :: "nat \<Rightarrow> string \<Rightarrow> string" where
  "zfill w s = replicate (w - length s) (CHR ''0'') @ s"

text \<open>Rounding of a non-negative rational to the nearest integer, ties to even.\<close>

definition round_half_even :: "rat \<Rightarrow> nat" where
  "round_half_even x =
     nat (if x - of_int \<lfloor>x\<rfloor> < 1 / 2 then \<lfloor>x\<rfloor>
          else if 1 / 2 < x - of_int \<lfloor>x\<rfloor> then \<lfloor>x\<rfloor> + 1
          else if even \<lfloor>x\<rfloor> then \<lfloor>x\<rfloor> else \<lfloor>x\<rfloor> + 1)"

text \<open>The format specification \<open>{:0w.pf}\<close> on a number: \<open>p\<close> decimals, zero-padded to
  width \<open>w\<close> (no padding for \<open>w = 0\<close>).\<close>

definition format_f :: "nat \<Rightarrow> nat \<Rightarrow> rat \<Rightarrow> string" where
  "format_f w p x =
     (let r = round_half_even (\<bar>x\<bar> * 10 ^ p);
          body = show_nat (r div 10 ^ p)
                 @ (if p = 0 then [] else CHR ''.'' # zfill p (show_nat (r mod 10 ^ p)));
          sign = (if x < 0 then ''-'' else [])
      in sign @ zfill (w - length sign) body)"

text \<open>\<open>'{:.pf}'.format(v)\<close> on any value: a string raises ValueError, a datetime takes
  the specification for a strftime pattern and returns it, the remaining types raise
  TypeError.\<close>

definition format_value :: "nat \<Rightarrow> pyval \<Rightarrow> py_error + string" where
  "format_value p v =
     (case v of
        PStr s \<Rightarrow> Inl ValueError
      | PDatetime d \<Rightarrow> Inr (CHR ''.'' # show_nat p @ ''f'')
      | _ \<Rightarrow> (case py_number v of None \<Rightarrow> Inl TypeError | Some x \<Rightarrow> Inr (format_f 0 p x)))"

text \<open>\<open>strftime('%H:%M')\<close> and \<open>strftime('%Y-%m-%dZ')\<close>.\<close>

definition strftime_HM :: "datetime \<Rightarrow> string" where
  "strftime_HM d = zfill 2 (show_nat (nat (hour d))) @ '':'' @ zfill 2 (show_nat (minute d))"

definition strftime_YmdZ :: "datetime \<Rightarrow> string" where
  "strftime_YmdZ d =
     zfill 4 (show_nat (year d)) @ ''-'' @ zfill 2 (show_nat (month d)) @ ''-''
     @ zfill 2 (show_nat (day d)) @ ''Z''"

subsection \<open>\<open>bisect.bisect\<close>\<close>

text \<open>The loop of \<open>bisect_right\<close>, over the comparison \<open>x < a[mid]\<close>, which can raise on
  values that are not numbers.\<close>

function bisect_loop :: "(int \<Rightarrow> 'a \<Rightarrow> py_error + bool) \<Rightarrow> 'a list \<Rightarrow> int \<Rightarrow> nat \<Rightarrow> nat \<Rightarrow> py_error + nat" where
  "bisect_loop lt a x lo hi =
     (if lo < hi then
        (case lt x (a ! ((lo + hi) div 2)) of
           Inl e \<Rightarrow> Inl e
         | Inr b \<Rightarrow> if b then bisect_loop lt a x lo ((lo + hi) div 2)
                   else bisect_loop lt a x ((lo + hi) div 2 + 1) hi)
      else Inr lo)"
  by pat_completeness auto
termination
  by (relation "measure (\<lambda>(lt, a, x, lo, hi). hi - lo)") auto

declare bisect_loop.simps [simp del]

definition bisect :: "(int \<Rightarrow> 'a \<Rightarrow> py_error + bool) \<Rightarrow> 'a list \<Rightarrow> int \<Rightarrow> py_error + nat" where
  "bisect lt a x = bisect_loop lt a x 0 (length a)"

section \<open>Configuration, collaborators and state\<close>

text \<open>The entries of the station configuration the module reads:
  \<open>Config['Station']['Country']\<close>, \<open>Config['Keys']['DarkSky']\<close> and so on. An API key
  is a string, unset when empty.\<close>

record config =
  Station_Country :: string
  Station_Timezone :: string
  Keys_DarkSky :: string
  Keys_OpenWeather :: string
  Units_Temp :: string
  Units_Wind :: string

text \<open>The functions of other modules and of the Python library that the module calls:
  \<open>observation.Units\<close>, \<open>derive.CardinalWindDirection\<close>, \<open>float\<close>, \<open>str\<close> on a value that
  is not a string, and \<open>datetime.fromtimestamp(t, pytz.utc).astimezone(Tz)\<close>. They are
  parameters of the model, and each may raise.\<close>

record env =
  observation_Units :: "pyval \<Rightarrow> string \<Rightarrow> py_error + pyval"
  derive_CardinalWindDirection :: "pyval \<Rightarrow> py_error + pyval"
  builtin_float :: "pyval \<Rightarrow> py_error + rat"
  builtin_repr :: "pyval \<Rightarrow> string"
  datetime_fromtimestamp :: "pyval \<Rightarrow> py_error + datetime"

text \<open>The readings of the clock during one extraction: \<open>Now\<close> in the station's time
  zone, and the two calls of \<open>int(time.time())\<close>. The time zone named in the
  configuration is taken to exist: \<open>pytz.timezone\<close> raising on an unknown name is not
  modelled.\<close>

record clock =
  Now :: datetime
  time_time_1 :: int
  time_time_2 :: int

datatype provider = metOffice | darkSky | openWeather

text \<open>What a call can change: the \<open>metData\<close> dictionary, the callbacks handed to
  \<open>Clock.schedule_once\<close> (each is a re-invocation of \<open>Download\<close>; the delay is recorded),
  and the HTTP requests issued.\<close>

record world =
  metData :: "string \<rightharpoonup> pyval"
  scheduled :: "nat list"
  requested :: "provider list"

definition setitem :: "string \<Rightarrow> pyval \<Rightarrow> world \<Rightarrow> world" where
  "setitem k v w = w\<lparr>metData := (metData w)(k \<mapsto> v)\<rparr>"

definition schedule_once :: "nat \<Rightarrow> world \<Rightarrow> world" where
  "schedule_once delay w = w\<lparr>scheduled := scheduled w @ [delay]\<rparr>"

definition request :: "provider \<Rightarrow> world \<Rightarrow> world" where
  "request p w = w\<lparr>requested := requested w @ [p]\<rparr>"

text \<open>A sequence of assignments \<open>metData[k] = rhs\<close>: the first right-hand side that
  raises ends it, and the assignments made before stay.\<close>

fun assign_all :: "(string \<times> (py_error + pyval)) list \<Rightarrow> world \<Rightarrow> py_error option \<times> world" where
  "assign_all [] w = (None, w)"
| "assign_all ((k, rhs) # rest) w =
     (case rhs of Inl e \<Rightarrow> (Some e, w) | Inr v \<Rightarrow> assign_all rest (setitem k v w))"

definition py_str :: "env \<Rightarrow> pyval \<Rightarrow> string" where
  "py_str E v = (case v of PStr s \<Rightarrow> s | _ \<Rightarrow> builtin_repr E v)"

text \<open>The body of the three \<open>except KeyError\<close> handlers (lines 116-127, 192-203,
  287-298).\<close>

definition forecast_unavailable :: "datetime \<Rightarrow> world \<Rightarrow> world" where
  "forecast_unavailable now w =
     schedule_once 600
       (setitem ''Valid'' (PStr ''--'')
       (setitem ''Precip'' (PStr ''--'')
       (setitem ''Weather'' (PStr ''ForecastUnavailable'')
       (setitem ''WindSpd'' (PStr ''--'')
       (setitem ''WindDir'' (PStr ''--'')
       (setitem ''Temp'' (PStr ''--'')
       (setitem ''Time'' (PDatetime now) w)))))))"

text \<open>\<open>['{:.pf}'.format(v[0]), v[1]]\<close>, the label of a temperature or a wind speed.\<close>

definition label :: "nat \<Rightarrow> pyval \<Rightarrow> py_error + pyval" where
  "label p v =
     and_then (getitem_int v 0) (\<lambda>x.
     and_then (format_value p x) (\<lambda>s.
     and_then (getitem_int v 1) (\<lambda>u.
     Inr (PList [PStr s, u]))))"

record ('i, 'v) variables =
  Issued :: 'i
  Valid :: 'v
  Temp :: pyval
  WindSpd :: pyval
  WindDir :: pyval
  Precip :: pyval
  Weather :: pyval

section \<open>ExtractMetOffice\<close>

text \<open>The \<open>try\<close> block, lines 113-114.\<close>

definition MetOffice_toplevel :: "env \<Rightarrow> (string \<rightharpoonup> pyval) \<Rightarrow> py_error + (string \<times> pyval)" where
  "MetOffice_toplevel E md =
     and_then (case md ''Dict'' of None \<Rightarrow> Inl KeyError | Some d \<Rightarrow> Inr d) (\<lambda>d.
     and_then (getitem d ''SiteRep'') (\<lambda>sr.
     and_then (getitem sr ''DV'') (\<lambda>dv.
     and_then (getitem dv ''dataDate'') (\<lambda>dd.
     and_then (slice_11_m4 dd) (\<lambda>sl.
     and_then (getitem dv ''Location'') (\<lambda>loc.
     and_then (getitem loc ''Period'') (\<lambda>metDict.
     Inr (py_str E sl, metDict))))))))"

text \<open>Lines 131-132: the forecasts of today.\<close>

definition MetOffice_today :: "clock \<Rightarrow> pyval \<Rightarrow> py_error + pyval" where
  "MetOffice_today C metDict =
     and_then (py_iter metDict) (\<lambda>items.
     and_then (map_err (\<lambda>item. getitem item ''value'') items) (\<lambda>Dates.
     and_then (index_of Dates (PStr (strftime_YmdZ (Now C)))) (\<lambda>i.
     and_then (getitem_int metDict (int i)) (\<lambda>today.
     getitem today ''Rep''))))"

text \<open>Line 136: the start of each three-hourly forecast, in hours.\<close>

definition MetOffice_Times :: "pyval \<Rightarrow> py_error + int list" where
  "MetOffice_Times metDict =
     and_then (py_iter metDict) (\<lambda>items.
     map_err (\<lambda>item. and_then (getitem item ''$'') (\<lambda>m.
                      and_then (py_int m) (\<lambda>n. Inr (n div 60)))) items)"

text \<open>Lines 137-142: the forecast of the current period and the hour it is valid until.\<close>

definition MetOffice_period :: "clock \<Rightarrow> pyval \<Rightarrow> int list \<Rightarrow> py_error + (pyval \<times> int)" where
  "MetOffice_period C metDict Times =
     and_then (bisect int_lt Times (hour (Now C))) (\<lambda>b.
     and_then (getitem_int metDict (int b - 1)) (\<lambda>period.
     and_then (bisect int_lt Times (hour (Now C))) (\<lambda>b'.
     and_then (list_index Times (int b' - 1)) (\<lambda>t.
     Inr (period, if t + 3 = 24 then 0 else t + 3)))))"

text \<open>Lines 145-153: the variables of the forecast, in the station's units.\<close>

definition MetOffice_variables ::
  "env \<Rightarrow> config \<Rightarrow> string \<Rightarrow> int \<Rightarrow> pyval \<Rightarrow> py_error + (string, int) variables" where
  "MetOffice_variables E Config issued valid metDict =
     and_then (getitem metDict ''T'') (\<lambda>T.
     and_then (builtin_float E T) (\<lambda>t.
     and_then (getitem metDict ''S'') (\<lambda>S.
     and_then (builtin_float E S) (\<lambda>s.
     and_then (getitem metDict ''D'') (\<lambda>D.
     and_then (getitem metDict ''Pp'') (\<lambda>Pp.
     and_then (getitem metDict ''W'') (\<lambda>W.
     and_then (observation_Units E (PList [PFloat t, PStr ''c'']) (Units_Temp Config)) (\<lambda>temp.
     and_then (observation_Units E (PList [PFloat (s / 2.2369362920544), PStr ''mps''])
                 (Units_Wind Config)) (\<lambda>windspd.
     Inr \<lparr>Issued = issued, Valid = valid, Temp = temp, WindSpd = windspd,
          WindDir = PList [D, PStr ''cardinal''], Precip = PList [Pp, PStr ''%''],
          Weather = W\<rparr>)))))))))"

definition MetOffice_locals ::
  "env \<Rightarrow> config \<Rightarrow> clock \<Rightarrow> string \<Rightarrow> pyval \<Rightarrow> py_error + (string, int) variables" where
  "MetOffice_locals E Config C issued metDict =
     and_then (MetOffice_today C metDict) (\<lambda>reps.
     and_then (MetOffice_Times reps) (\<lambda>Times.
     and_then (MetOffice_period C reps Times) (\<lambda>(period, valid).
     MetOffice_variables E Config issued valid period)))"

text \<open>Lines 156-164.\<close>

definition MetOffice_labels :: "clock \<Rightarrow> (string, int) variables \<Rightarrow> (string \<times> (py_error + pyval)) list" where
  "MetOffice_labels C L =
     [(''Time'', Inr (PDatetime (Now C))),
      (''Issued'', Inr (PStr (Issued L))),
      (''Valid'', Inr (PStr (format_f 2 0 (of_int (Valid L)) @ '':00''))),
      (''Temp'', label 1 (Temp L)),
      (''WindDir'', getitem_int (WindDir L) 0),
      (''WindSpd'', label 0 (WindSpd L)),
      (''Weather'', Inr (Weather L)),
      (''Precip'', getitem_int (Precip L) 0),
      (''Source'', Inr (PStr ''MetOffice''))]"

definition ExtractMetOffice :: "env \<Rightarrow> config \<Rightarrow> clock \<Rightarrow> world \<Rightarrow> py_error option \<times> world" where
  "ExtractMetOffice E Config C w =
     (case MetOffice_toplevel E (metData w) of
        Inl e \<Rightarrow> if e = KeyError then (None, forecast_unavailable (Now C) w) else (Some e, w)
      | Inr (issued, metDict) \<Rightarrow>
          (case MetOffice_locals E Config C issued metDict of
             Inl e \<Rightarrow> (Some e, w)
           | Inr L \<Rightarrow> assign_all (MetOffice_labels C L) w))"

section \<open>ExtractDarkSky\<close>

text \<open>The \<open>try\<close> block, line 190.\<close>

definition DarkSky_toplevel :: "(string \<rightharpoonup> pyval) \<Rightarrow> py_error + pyval" where
  "DarkSky_toplevel md =
     and_then (case md ''Dict'' of None \<Rightarrow> Inl KeyError | Some d \<Rightarrow> Inr d) (\<lambda>d.
     and_then (getitem d ''hourly'') (\<lambda>h.
     getitem h ''data''))"

text \<open>Lines 207-208 (302-303 for OpenWeather, with the key \<open>dt\<close>): the start of each
  hourly forecast, and the forecast of the current hour.\<close>

definition hourly_Times :: "string \<Rightarrow> pyval \<Rightarrow> py_error + pyval list" where
  "hourly_Times key metDict =
     and_then (py_iter metDict) (\<lambda>items. map_err (\<lambda>item. getitem item key) items)"

definition hourly_period :: "clock \<Rightarrow> pyval \<Rightarrow> pyval list \<Rightarrow> py_error + pyval" where
  "hourly_period C metDict Times =
     and_then (bisect py_lt Times (time_time_1 C)) (\<lambda>b. getitem_int metDict (int b - 1))"

text \<open>Lines 211-214 (306-309): the times the forecast was issued at and is valid until.\<close>

definition hourly_Issued_Valid :: "env \<Rightarrow> clock \<Rightarrow> pyval list \<Rightarrow> py_error + (datetime \<times> datetime)" where
  "hourly_Issued_Valid E C Times =
     and_then (list_index Times 0) (\<lambda>issued.
     and_then (bisect py_lt Times (time_time_2 C)) (\<lambda>b.
     and_then (list_index Times (int b)) (\<lambda>valid.
     and_then (datetime_fromtimestamp E issued) (\<lambda>issued'.
     and_then (datetime_fromtimestamp E valid) (\<lambda>valid'.
     Inr (issued', valid'))))))"

text \<open>Lines 217-225.\<close>

definition DarkSky_variables ::
  "env \<Rightarrow> config \<Rightarrow> datetime \<times> datetime \<Rightarrow> pyval \<Rightarrow> py_error + (datetime, datetime) variables" where
  "DarkSky_variables E Config iv metDict =
     and_then (getitem metDict ''temperature'') (\<lambda>T.
     and_then (getitem metDict ''windSpeed'') (\<lambda>S.
     and_then (py_truediv S 2.2369362920544) (\<lambda>s.
     and_then (getitem metDict ''windBearing'') (\<lambda>D.
     and_then (getitem metDict ''precipProbability'') (\<lambda>P.
     and_then (py_mul_100 P) (\<lambda>p.
     and_then (getitem metDict ''icon'') (\<lambda>W.
     and_then (observation_Units E (PList [T, PStr ''c'']) (Units_Temp Config)) (\<lambda>temp.
     and_then (observation_Units E (PList [s, PStr ''mps'']) (Units_Wind Config)) (\<lambda>windspd.
     Inr \<lparr>Issued = fst iv, Valid = snd iv, Temp = temp, WindSpd = windspd,
          WindDir = PList [D, PStr ''degrees''], Precip = PList [p, PStr ''%''],
          Weather = W\<rparr>)))))))))"

definition DarkSky_locals ::
  "env \<Rightarrow> config \<Rightarrow> clock \<Rightarrow> pyval \<Rightarrow> py_error + (datetime, datetime) variables" where
  "DarkSky_locals E Config C metDict =
     and_then (hourly_Times ''time'' metDict) (\<lambda>Times.
     and_then (hourly_period C metDict Times) (\<lambda>period.
     and_then (hourly_Issued_Valid E C Times) (\<lambda>iv.
     DarkSky_variables E Config iv period)))"

text \<open>Lines 238-259.\<close>

definition DarkSky_icon :: "pyval \<Rightarrow> string" where
  "DarkSky_icon W =
     (if W = PStr ''clear-day'' then ''1''
      else if W = PStr ''clear-night'' then ''0''
      else if W = PStr ''rain'' then ''12''
      else if W = PStr ''snow'' then ''27''
      else if W = PStr ''sleet'' then ''18''
      else if W = PStr ''wind'' then ''wind''
      else if W = PStr ''fog'' then ''6''
      else if W = PStr ''cloudy'' then ''7''
      else if W = PStr ''partly-cloudy-day'' then ''3''
      else if W = PStr ''partly-cloudy-night'' then ''2''
      else ''ForecastUnavailable'')"

text \<open>Lines 228-235 and the icon.\<close>

definition DarkSky_labels ::
  "env \<Rightarrow> clock \<Rightarrow> (datetime, datetime) variables \<Rightarrow> (string \<times> (py_error + pyval)) list" where
  "DarkSky_labels E C L =
     [(''Time'', Inr (PDatetime (Now C))),
      (''Issued'', Inr (PStr (strftime_HM (Issued L)))),
      (''Valid'', Inr (PStr (strftime_HM (Valid L)))),
      (''Temp'', label 1 (Temp L)),
      (''WindDir'', and_then (derive_CardinalWindDirection E (WindDir L)) (\<lambda>r. getitem_int r 2)),
      (''WindSpd'', label 0 (WindSpd L)),
      (''Precip'', and_then (getitem_int (Precip L) 0) (\<lambda>p.
                   and_then (format_value 0 p) (\<lambda>s. Inr (PStr s)))),
      (''Source'', Inr (PStr ''DarkSky'')),
      (''Weather'', Inr (PStr (DarkSky_icon (Weather L))))]"

definition ExtractDarkSky :: "env \<Rightarrow> config \<Rightarrow> clock \<Rightarrow> world \<Rightarrow> py_error option \<times> world" where
  "ExtractDarkSky E Config C w =
     (case DarkSky_toplevel (metData w) of
        Inl e \<Rightarrow> if e = KeyError then (None, forecast_unavailable (Now C) w) else (Some e, w)
      | Inr metDict \<Rightarrow>
          (case DarkSky_locals E Config C metDict of
             Inl e \<Rightarrow> (Some e, w)
           | Inr L \<Rightarrow> assign_all (DarkSky_labels E C L) w))"

section \<open>ExtractOpenWeather\<close>

text \<open>The \<open>try\<close> block, line 285.\<close>

definition OpenWeather_toplevel :: "(string \<rightharpoonup> pyval) \<Rightarrow> py_error + pyval" where
  "OpenWeather_toplevel md =
     and_then (case md ''Dict'' of None \<Rightarrow> Inl KeyError | Some d \<Rightarrow> Inr d) (\<lambda>d.
     getitem d ''hourly'')"

text \<open>Lines 312-321. No precipitation is read: the two lines that did are commented
  out, and there is no local \<open>Precip\<close>. The component Precip of the result holds the
  constant of line 330, and the labels do not read it.\<close>

definition OpenWeather_variables ::
  "env \<Rightarrow> config \<Rightarrow> datetime \<times> datetime \<Rightarrow> pyval \<Rightarrow> py_error + (datetime, datetime) variables" where
  "OpenWeather_variables E Config iv metDict =
     and_then (getitem metDict ''temp'') (\<lambda>T.
     and_then (getitem metDict ''wind_speed'') (\<lambda>S.
     and_then (py_mul_float S 0.2778) (\<lambda>s.
     and_then (getitem metDict ''wind_deg'') (\<lambda>D.
     and_then (getitem metDict ''weather'') (\<lambda>ws.
     and_then (getitem_int ws 0) (\<lambda>w0.
     and_then (getitem w0 ''icon'') (\<lambda>W.
     and_then (observation_Units E (PList [T, PStr ''c'']) (Units_Temp Config)) (\<lambda>temp.
     and_then (observation_Units E (PList [s, PStr ''mps'']) (Units_Wind Config)) (\<lambda>windspd.
     Inr \<lparr>Issued = fst iv, Valid = snd iv, Temp = temp, WindSpd = windspd,
          WindDir = PList [D, PStr ''degrees''], Precip = PStr ''--'',
          Weather = W\<rparr>)))))))))"

definition OpenWeather_locals ::
  "env \<Rightarrow> config \<Rightarrow> clock \<Rightarrow> pyval \<Rightarrow> py_error + (datetime, datetime) variables" where
  "OpenWeather_locals E Config C metDict =
     and_then (hourly_Times ''dt'' metDict) (\<lambda>Times.
     and_then (hourly_period C metDict Times) (\<lambda>period.
     and_then (hourly_Issued_Valid E C Times) (\<lambda>iv.
     OpenWeather_variables E Config iv period)))"

text \<open>Lines 333-354: \<open>ICONMAP.get(Weather, "ForecastUnavailable")\<close>. A list or a
  dictionary cannot be hashed, and \<open>get\<close> raises TypeError on it.\<close>

definition ICONMAP :: "(string \<times> string) list" where
  "ICONMAP =
     [(''01n'', ''0''), (''01d'', ''1''), (''02n'', ''2''), (''02d'', ''3''),
      (''50d'', ''6''), (''50n'', ''6''), (''03d'', ''7''), (''03n'', ''7''),
      (''04d'', ''8''), (''04n'', ''8''), (''09n'', ''9''), (''09d'', ''10''),
      (''10n'', ''13''), (''10d'', ''14''), (''13n'', ''22''), (''13d'', ''23''),
      (''11n'', ''28''), (''11d'', ''29'')]"

definition hashable :: "pyval \<Rightarrow> bool" where
  "hashable v = (case v of PList xs \<Rightarrow> False | PDict kvs \<Rightarrow> False | _ \<Rightarrow> True)"

definition ICONMAP_get :: "pyval \<Rightarrow> py_error + string" where
  "ICONMAP_get W =
     (case W of
        PStr s \<Rightarrow> (case map_of ICONMAP s of None \<Rightarrow> Inr ''ForecastUnavailable'' | Some c \<Rightarrow> Inr c)
      | _ \<Rightarrow> if hashable W then Inr ''ForecastUnavailable'' else Inl TypeError)"

text \<open>Lines 324-331 and the icon.\<close>

definition OpenWeather_labels ::
  "env \<Rightarrow> clock \<Rightarrow> (datetime, datetime) variables \<Rightarrow> (string \<times> (py_error + pyval)) list" where
  "OpenWeather_labels E C L =
     [(''Time'', Inr (PDatetime (Now C))),
      (''Issued'', Inr (PStr (strftime_HM (Issued L)))),
      (''Valid'', Inr (PStr (strftime_HM (Valid L)))),
      (''Temp'', label 1 (Temp L)),
      (''WindDir'', and_then (derive_CardinalWindDirection E (WindDir L)) (\<lambda>r. getitem_int r 2)),
      (''WindSpd'', label 0 (WindSpd L)),
      (''Precip'', Inr (PStr ''--'')),
      (''Source'', Inr (PStr ''OpenWeather'')),
      (''Weather'', and_then (ICONMAP_get (Weather L)) (\<lambda>c. Inr (PStr c)))]"

definition ExtractOpenWeather :: "env \<Rightarrow> config \<Rightarrow> clock \<Rightarrow> world \<Rightarrow> py_error option \<times> world" where
  "ExtractOpenWeather E Config C w =
     (case OpenWeather_toplevel (metData w) of
        Inl e \<Rightarrow> if e = KeyError then (None, forecast_unavailable (Now C) w) else (Some e, w)
      | Inr metDict \<Rightarrow>
          (case OpenWeather_locals E Config C metDict of
             Inl e \<Rightarrow> (Some e, w)
           | Inr L \<Rightarrow> assign_all (OpenWeather_labels E C L) w))"

section \<open>Download\<close>

text \<open>The answer of an HTTP request is the decoded JSON of its body, or nothing when the
  request failed or the body is not JSON.\<close>

type_synonym response = "pyval option"

text \<open>Modelled from the spec: \<open>requestAPI.forecast.verifyResponse\<close> is in lib/requestAPI,
  not in this module. The spec has it as the shape-check helper that confirms a named
  top-level key exists.\<close>

definition verifyResponse :: "response \<Rightarrow> string \<Rightarrow> bool" where
  "verifyResponse Data key =
     (case Data of
        Some (PDict kvs) \<Rightarrow> map_of kvs key \<noteq> None
      | _ \<Rightarrow> False)"

text \<open>Lines 51-56, and the same at 67-72 and 82-87: a verified answer replaces the cached
  dictionary; otherwise a retry is scheduled and a missing cache becomes the empty
  dictionary.\<close>

definition store_response :: "response \<Rightarrow> string \<Rightarrow> world \<Rightarrow> world" where
  "store_response Data key w =
     (case (verifyResponse Data key, Data) of
        (True, Some j) \<Rightarrow> setitem ''Dict'' j w
      | _ \<Rightarrow> (let w' = schedule_once 600 w
              in if metData w' ''Dict'' = None then setitem ''Dict'' (PDict []) w' else w'))"

definition Download ::
  "env \<Rightarrow> config \<Rightarrow> clock \<Rightarrow> (provider \<Rightarrow> response) \<Rightarrow> world \<Rightarrow> py_error option \<times> world" where
  "Download E Config C http w =
     (if Station_Country Config = ''GB'' then
        ExtractMetOffice E Config C
          (store_response (http metOffice) ''SiteRep'' (request metOffice w))
      else if Keys_DarkSky Config \<noteq> [] then
        ExtractDarkSky E Config C
          (store_response (http darkSky) ''hourly'' (request darkSky w))
      else if Keys_OpenWeather Config \<noteq> [] then
        ExtractOpenWeather E Config C
          (store_response (http openWeather) ''hourly'' (request openWeather w))
      else (None, w))"

text \<open>The raw data Download keeps when an answer is refused (lines 55-56): the
  dictionary cached before, or the empty dictionary.\<close>

definition cached_Dict :: "world \<Rightarrow> pyval" where
  "cached_Dict w = (case metData w ''Dict'' of None \<Rightarrow> PDict [] | Some d \<Rightarrow> d)"


text \<open>The keys of \<open>metData\<close> that the renderer reads, which are the keys a successful
  extraction assigns (lines 156-164, 228-259, 324-354).\<close>

definition display_fields :: "string list" where
  "display_fields =
     [''Time'', ''Issued'', ''Valid'', ''Temp'', ''WindDir'', ''WindSpd'', ''Weather'', ''Precip'',
      ''Source'']"

section \<open>Example inputs\<close>

text \<open>Collaborators for the examples: no unit conversion, the cardinal direction always
  north, \<open>float\<close> on integers and decimal integer strings, timestamps read as UTC.\<close>

definition example_env :: env where
  "example_env =
     \<lparr>observation_Units = (\<lambda>v u. Inr v),
      derive_CardinalWindDirection = (\<lambda>v. Inr (PList [v, PStr ''degrees'', PStr ''N''])),
      builtin_float = (\<lambda>v. case v of
          PStr s \<Rightarrow> (case int_of_str s of Inl e \<Rightarrow> Inl ValueError | Inr i \<Rightarrow> Inr (of_int i))
        | _ \<Rightarrow> (case py_number v of None \<Rightarrow> Inl TypeError | Some r \<Rightarrow> Inr r)),
      builtin_repr = (\<lambda>v. []),
      datetime_fromtimestamp = (\<lambda>v. case v of
          PInt t \<Rightarrow> Inr \<lparr>year = 1970, month = 1, day = 1, hour = (t div 3600) mod 24,
                        minute = nat ((t div 60) mod 60)\<rparr>
        | _ \<Rightarrow> Inl TypeError)\<rparr>"

definition example_config :: "string \<Rightarrow> string \<Rightarrow> string \<Rightarrow> config" where
  "example_config country key_a key_b =
     \<lparr>Station_Country = country, Station_Timezone = ''Europe/London'',
      Keys_DarkSky = key_a, Keys_OpenWeather = key_b,
      Units_Temp = ''c'', Units_Wind = ''mph''\<rparr>"

definition example_clock :: "int \<Rightarrow> int \<Rightarrow> clock" where
  "example_clock h t =
     \<lparr>Now = \<lparr>year = 2020, month = 6, day = 1, hour = h, minute = 30\<rparr>,
      time_time_1 = t, time_time_2 = t\<rparr>"

definition no_answer :: "provider \<Rightarrow> response" where
  "no_answer p = None"

definition answer :: "pyval \<Rightarrow> provider \<Rightarrow> response" where
  "answer j p = Some j"

definition new_world :: world where
  "new_world = \<lparr>metData = Map.empty, scheduled = [], requested = []\<rparr>"

text \<open>A MetOffice answer with the eight three-hourly forecasts of 1 June 2020; the
  weather code of each forecast is its position in the list.\<close>

definition example_Rep :: "string \<Rightarrow> string \<Rightarrow> pyval" where
  "example_Rep minutes code =
     PDict [(''D'', PStr ''SW''), (''Pp'', PStr ''5''), (''S'', PStr ''9''), (''T'', PStr ''17''),
            (''W'', PStr code), (''$'', PStr minutes)]"

definition example_Reps :: pyval where
  "example_Reps =
     PList [example_Rep ''0'' ''0'', example_Rep ''180'' ''1'', example_Rep ''360'' ''2'',
            example_Rep ''540'' ''3'', example_Rep ''720'' ''4'', example_Rep ''900'' ''5'',
            example_Rep ''1080'' ''6'', example_Rep ''1260'' ''7'']"

definition example_Period :: pyval where
  "example_Period = PList [PDict [(''value'', PStr ''2020-06-01Z''), (''Rep'', example_Reps)]]"

definition example_MetOffice :: pyval where
  "example_MetOffice =
     PDict [(''SiteRep'', PDict [(''DV'', PDict
       [(''dataDate'', PStr ''2020-06-01T13:00:00Z''),
        (''Location'', PDict [(''Period'', example_Period)])])])]"

text \<open>A DarkSky answer with three hourly forecasts, starting at 3600, 7200 and 10800
  seconds, and an OpenWeather answer with the same hours.\<close>

definition example_DarkSky_hour :: "int \<Rightarrow> string \<Rightarrow> pyval" where
  "example_DarkSky_hour t icon =
     PDict [(''time'', PInt t), (''temperature'', PFloat 12), (''windSpeed'', PInt 10),
            (''windBearing'', PInt 180), (''precipProbability'', PFloat (35 / 100)),
            (''icon'', PStr icon)]"

definition example_DarkSky_data :: pyval where
  "example_DarkSky_data =
     PList [example_DarkSky_hour 3600 ''rain'', example_DarkSky_hour 7200 ''cloudy'',
            example_DarkSky_hour 10800 ''hail'']"

definition example_DarkSky :: pyval where
  "example_DarkSky = PDict [(''hourly'', PDict [(''data'', example_DarkSky_data)])]"

definition example_OpenWeather_hour :: "int \<Rightarrow> string \<Rightarrow> pyval" where
  "example_OpenWeather_hour t icon =
     PDict [(''dt'', PInt t), (''temp'', PFloat 12), (''wind_speed'', PInt 10),
            (''wind_deg'', PInt 180), (''pop'', PFloat (35 / 100)),
            (''weather'', PList [PDict [(''icon'', PStr icon)]])]"

definition example_OpenWeather_hourly :: pyval where
  "example_OpenWeather_hourly =
     PList [example_OpenWeather_hour 3600 ''10d'', example_OpenWeather_hour 7200 ''04n'',
            example_OpenWeather_hour 10800 ''99x'']"

definition example_OpenWeather :: pyval where
  "example_OpenWeather = PDict [(''hourly'', example_OpenWeather_hourly)]"

text \<open>A state left by an earlier, successful fetch from the given answer.\<close>

definition cached_world :: "pyval \<Rightarrow> world" where
  "cached_world j =
     \<lparr>metData = [''Dict'' \<mapsto> j, ''Issued'' \<mapsto> PStr ''06:00'', ''Source'' \<mapsto> PStr ''Cached''],
      scheduled = [], requested = []\<rparr>"

section \<open>What a call leaves unchanged\<close>

lemma floor_rat_numeral: "\<lfloor>numeral a / numeral b :: rat\<rfloor> = numeral a div numeral b"
  using floor_divide_of_int_eq [of "numeral a" "numeral b", where ?'a = rat] by simp

lemmas py_defs = and_then_def getitem_def list_index_def getitem_int_def slice_11_m4_def py_iter_def
  index_of_def py_number_def py_truediv_def py_mul_float_def py_mul_100_def py_lt_def int_lt_def
  is_space_def is_digit_def digit_val_def strip_def int_of_str_def py_int_def zfill_def
  round_half_even_def format_f_def format_value_def strftime_HM_def strftime_YmdZ_def bisect_def
  bisect_loop.simps show_nat.simps setitem_def schedule_once_def request_def py_str_def
  forecast_unavailable_def label_def floor_rat_numeral

lemmas model_defs = Download_def store_response_def verifyResponse_def
  ExtractMetOffice_def MetOffice_toplevel_def MetOffice_locals_def MetOffice_today_def
  MetOffice_Times_def MetOffice_period_def MetOffice_variables_def MetOffice_labels_def
  ExtractDarkSky_def DarkSky_toplevel_def DarkSky_locals_def hourly_Times_def hourly_period_def
  hourly_Issued_Valid_def DarkSky_variables_def DarkSky_labels_def DarkSky_icon_def
  ExtractOpenWeather_def OpenWeather_toplevel_def OpenWeather_locals_def OpenWeather_variables_def
  OpenWeather_labels_def ICONMAP_def ICONMAP_get_def hashable_def

lemmas ex_defs = example_env_def example_config_def example_clock_def no_answer_def answer_def
  new_world_def example_Rep_def example_Reps_def example_Period_def example_MetOffice_def
  example_DarkSky_hour_def example_DarkSky_data_def example_DarkSky_def
  example_OpenWeather_hour_def example_OpenWeather_hourly_def example_OpenWeather_def
  cached_world_def

lemma assign_all_frame:
  "assign_all kvs w = (r, w') \<Longrightarrow>
     scheduled w' = scheduled w \<and> requested w' = requested w \<and>
     (\<forall>k. k \<notin> fst ` set kvs \<longrightarrow> metData w' k = metData w k)"
proof (induction kvs arbitrary: w)
  case Nil
  then show ?case by simp
next
  case (Cons a kvs)
  obtain k rhs where a: "a = (k, rhs)" by (cases a)
  show ?case
  proof (cases rhs)
    case (Inl e)
    with Cons.prems a show ?thesis by simp
  next
    case (Inr v)
    with Cons.prems a have "assign_all kvs (setitem k v w) = (r, w')" by simp
    from Cons.IH [OF this] a show ?thesis by (simp add: setitem_def)
  qed
qed

lemma assign_all_snd:
  "scheduled (snd (assign_all kvs w)) = scheduled w"
  "requested (snd (assign_all kvs w)) = requested w"
  "k \<notin> fst ` set kvs \<Longrightarrow> metData (snd (assign_all kvs w)) k = metData w k"
  using assign_all_frame [OF surjective_pairing, of kvs w] by simp_all

text \<open>When every assignment of the sequence is made, each key holds its right-hand
  side.\<close>

lemma assign_all_None:
  "assign_all kvs w = (None, w') \<Longrightarrow> distinct (map fst kvs) \<Longrightarrow> (k, rhs) \<in> set kvs \<Longrightarrow>
     \<exists>v. rhs = Inr v \<and> metData w' k = Some v"
proof (induction kvs arbitrary: w)
  case Nil
  then show ?case by simp
next
  case (Cons a kvs)
  obtain k' rhs' where a: "a = (k', rhs')" by (cases a)
  from Cons.prems(1) a obtain v' where rhs': "rhs' = Inr v'"
    and rest: "assign_all kvs (setitem k' v' w) = (None, w')"
    by (cases rhs') auto
  show ?case
  proof (cases "(k, rhs) = a")
    case True
    from Cons.prems(2) a have "k' \<notin> fst ` set kvs" by simp
    with assign_all_frame [OF rest] have "metData w' k' = metData (setitem k' v' w) k'" by blast
    with True a rhs' show ?thesis by (simp add: setitem_def)
  next
    case False
    with Cons.prems(3) have "(k, rhs) \<in> set kvs" by simp
    moreover from Cons.prems(2) have "distinct (map fst kvs)" by simp
    ultimately show ?thesis using Cons.IH [OF rest] by blast
  qed
qed

lemma forecast_unavailable_frame:
  "scheduled (forecast_unavailable now w) = scheduled w @ [600]"
  "requested (forecast_unavailable now w) = requested w"
  by (simp_all add: forecast_unavailable_def schedule_once_def setitem_def)

lemma forecast_unavailable_metData:
  "metData (forecast_unavailable now w) =
     (metData w)(''Time'' \<mapsto> PDatetime now, ''Temp'' \<mapsto> PStr ''--'', ''WindDir'' \<mapsto> PStr ''--'',
                 ''WindSpd'' \<mapsto> PStr ''--'', ''Weather'' \<mapsto> PStr ''ForecastUnavailable'',
                 ''Precip'' \<mapsto> PStr ''--'', ''Valid'' \<mapsto> PStr ''--'')"
  by (simp add: forecast_unavailable_def schedule_once_def setitem_def)

text \<open>The three ways an extraction ends: the handler of KeyError, an exception that
  leaves \<open>metData\<close> as it was, or the assignments of the labels.\<close>

lemma ExtractMetOffice_cases:
  "(MetOffice_toplevel E (metData w) = Inl KeyError
      \<and> ExtractMetOffice E Config C w = (None, forecast_unavailable (Now C) w))
   \<or> (\<exists>e. ExtractMetOffice E Config C w = (Some e, w))
   \<or> (\<exists>issued metDict L. MetOffice_toplevel E (metData w) = Inr (issued, metDict)
         \<and> MetOffice_locals E Config C issued metDict = Inr L
         \<and> ExtractMetOffice E Config C w = assign_all (MetOffice_labels C L) w)"
  by (auto simp: ExtractMetOffice_def split: sum.splits if_splits)

lemma ExtractDarkSky_cases:
  "(DarkSky_toplevel (metData w) = Inl KeyError
      \<and> ExtractDarkSky E Config C w = (None, forecast_unavailable (Now C) w))
   \<or> (\<exists>e. ExtractDarkSky E Config C w = (Some e, w))
   \<or> (\<exists>metDict L. DarkSky_toplevel (metData w) = Inr metDict
         \<and> DarkSky_locals E Config C metDict = Inr L
         \<and> ExtractDarkSky E Config C w = assign_all (DarkSky_labels E C L) w)"
  by (auto simp: ExtractDarkSky_def split: sum.splits if_splits)

lemma ExtractOpenWeather_cases:
  "(OpenWeather_toplevel (metData w) = Inl KeyError
      \<and> ExtractOpenWeather E Config C w = (None, forecast_unavailable (Now C) w))
   \<or> (\<exists>e. ExtractOpenWeather E Config C w = (Some e, w))
   \<or> (\<exists>metDict L. OpenWeather_toplevel (metData w) = Inr metDict
         \<and> OpenWeather_locals E Config C metDict = Inr L
         \<and> ExtractOpenWeather E Config C w = assign_all (OpenWeather_labels E C L) w)"
  by (auto simp: ExtractOpenWeather_def split: sum.splits if_splits)

lemma labels_keys:
  "map fst (MetOffice_labels C L) =
     [''Time'', ''Issued'', ''Valid'', ''Temp'', ''WindDir'', ''WindSpd'', ''Weather'', ''Precip'', ''Source'']"
  "map fst (DarkSky_labels E C L') =
     [''Time'', ''Issued'', ''Valid'', ''Temp'', ''WindDir'', ''WindSpd'', ''Precip'', ''Source'', ''Weather'']"
  "map fst (OpenWeather_labels E C L') =
     [''Time'', ''Issued'', ''Valid'', ''Temp'', ''WindDir'', ''WindSpd'', ''Precip'', ''Source'', ''Weather'']"
  by (simp_all add: MetOffice_labels_def DarkSky_labels_def OpenWeather_labels_def)

lemma ExtractMetOffice_requested: "requested (snd (ExtractMetOffice E Config C w)) = requested w"
  using ExtractMetOffice_cases [of E w Config C]
  by (auto simp: forecast_unavailable_frame assign_all_snd)

lemma ExtractDarkSky_requested: "requested (snd (ExtractDarkSky E Config C w)) = requested w"
  using ExtractDarkSky_cases [of w E Config C]
  by (auto simp: forecast_unavailable_frame assign_all_snd)

lemma ExtractOpenWeather_requested: "requested (snd (ExtractOpenWeather E Config C w)) = requested w"
  using ExtractOpenWeather_cases [of w E Config C]
  by (auto simp: forecast_unavailable_frame assign_all_snd)

lemma store_response_requested: "requested (store_response Data key w) = requested w"
  by (auto simp: store_response_def setitem_def schedule_once_def Let_def
           split: option.splits pyval.splits bool.splits)

lemma labels_Dict:
  "''Dict'' \<notin> fst ` set (MetOffice_labels C L)"
  "''Dict'' \<notin> fst ` set (DarkSky_labels E C L')"
  "''Dict'' \<notin> fst ` set (OpenWeather_labels E C L')"
  by (simp_all add: MetOffice_labels_def DarkSky_labels_def OpenWeather_labels_def)

lemma forecast_unavailable_Dict: "metData (forecast_unavailable now w) ''Dict'' = metData w ''Dict''"
  by (simp add: forecast_unavailable_metData)

lemma ExtractMetOffice_Dict: "metData (snd (ExtractMetOffice E Config C w)) ''Dict'' = metData w ''Dict''"
  using ExtractMetOffice_cases [of E w Config C]
  by (auto simp: forecast_unavailable_Dict assign_all_snd labels_Dict)

lemma ExtractDarkSky_Dict: "metData (snd (ExtractDarkSky E Config C w)) ''Dict'' = metData w ''Dict''"
  using ExtractDarkSky_cases [of w E Config C]
  by (auto simp: forecast_unavailable_Dict assign_all_snd labels_Dict)

lemma ExtractOpenWeather_Dict: "metData (snd (ExtractOpenWeather E Config C w)) ''Dict'' = metData w ''Dict''"
  using ExtractOpenWeather_cases [of w E Config C]
  by (auto simp: forecast_unavailable_Dict assign_all_snd labels_Dict)

text \<open>An extraction schedules nothing, or one retry after 600 seconds.\<close>

lemma ExtractMetOffice_scheduled:
  "scheduled (snd (ExtractMetOffice E Config C w)) = scheduled w
   \<or> scheduled (snd (ExtractMetOffice E Config C w)) = scheduled w @ [600]"
  using ExtractMetOffice_cases [of E w Config C]
  by (auto simp: forecast_unavailable_frame assign_all_snd)

lemma ExtractDarkSky_scheduled:
  "scheduled (snd (ExtractDarkSky E Config C w)) = scheduled w
   \<or> scheduled (snd (ExtractDarkSky E Config C w)) = scheduled w @ [600]"
  using ExtractDarkSky_cases [of w E Config C]
  by (auto simp: forecast_unavailable_frame assign_all_snd)

lemma ExtractOpenWeather_scheduled:
  "scheduled (snd (ExtractOpenWeather E Config C w)) = scheduled w
   \<or> scheduled (snd (ExtractOpenWeather E Config C w)) = scheduled w @ [600]"
  using ExtractOpenWeather_cases [of w E Config C]
  by (auto simp: forecast_unavailable_frame assign_all_snd)

lemma store_response_refused:
  "\<not> verifyResponse Data key \<Longrightarrow>
     store_response Data key w =
       \<lparr>metData = (metData w)(''Dict'' \<mapsto> cached_Dict w), scheduled = scheduled w @ [600],
        requested = requested w\<rparr>"
  by (cases w; cases "metData w ''Dict''")
     (auto simp: store_response_def schedule_once_def setitem_def cached_Dict_def Let_def map_upd_triv
           split: option.splits)

section \<open>The provider Download selects\<close>

text \<open>
  C1. Download takes exactly one provider, by a fixed priority. With the country
  \<open>GB\<close> it runs the MetOffice branch, whatever the two API keys are. With another
  country and the DarkSky key set it runs the DarkSky branch. With another country, the
  DarkSky key unset and the OpenWeather key set it runs the OpenWeather branch. In each
  case one HTTP request is issued, to that provider.
\<close>

theorem Download_selects_provider:
  "(Station_Country Config = ''GB'' \<longrightarrow>
      Download E Config C http w =
        ExtractMetOffice E Config C (store_response (http metOffice) ''SiteRep'' (request metOffice w))
      \<and> requested (snd (Download E Config C http w)) = requested w @ [metOffice])
   \<and> (Station_Country Config \<noteq> ''GB'' \<and> Keys_DarkSky Config \<noteq> [] \<longrightarrow>
      Download E Config C http w =
        ExtractDarkSky E Config C (store_response (http darkSky) ''hourly'' (request darkSky w))
      \<and> requested (snd (Download E Config C http w)) = requested w @ [darkSky])
   \<and> (Station_Country Config \<noteq> ''GB'' \<and> Keys_DarkSky Config = [] \<and> Keys_OpenWeather Config \<noteq> [] \<longrightarrow>
      Download E Config C http w =
        ExtractOpenWeather E Config C (store_response (http openWeather) ''hourly'' (request openWeather w))
      \<and> requested (snd (Download E Config C http w)) = requested w @ [openWeather])"
  by (simp add: Download_def ExtractMetOffice_requested ExtractDarkSky_requested
        ExtractOpenWeather_requested store_response_requested request_def)

theorem Download_selects_provider_witness:
  "requested (snd (Download example_env (example_config ''GB'' ''keyA'' ''keyB'')
                     (example_clock 14 0) no_answer new_world)) = [metOffice]
   \<and> requested (snd (Download example_env (example_config ''US'' ''keyA'' ''keyB'')
                     (example_clock 14 0) no_answer new_world)) = [darkSky]
   \<and> requested (snd (Download example_env (example_config ''US'' [] ''keyB'')
                     (example_clock 14 0) no_answer new_world)) = [openWeather]"
proof -
  let ?A = "example_config ''GB'' ''keyA'' ''keyB''"
  let ?B = "example_config ''US'' ''keyA'' ''keyB''"
  let ?D = "example_config ''US'' [] ''keyB''"
  have a: "Station_Country ?A = ''GB''"
    by (simp add: example_config_def)
  have b: "Station_Country ?B \<noteq> ''GB'' \<and> Keys_DarkSky ?B \<noteq> []"
    by (simp add: example_config_def)
  have d: "Station_Country ?D \<noteq> ''GB'' \<and> Keys_DarkSky ?D = [] \<and> Keys_OpenWeather ?D \<noteq> []"
    by (simp add: example_config_def)
  have r: "requested new_world = []"
    by (simp add: new_world_def)
  from a Download_selects_provider [of ?A example_env "example_clock 14 0" no_answer new_world]
  have 1: "requested (snd (Download example_env ?A (example_clock 14 0) no_answer new_world))
             = requested new_world @ [metOffice]"
    by blast
  from b Download_selects_provider [of ?B example_env "example_clock 14 0" no_answer new_world]
  have 2: "requested (snd (Download example_env ?B (example_clock 14 0) no_answer new_world))
             = requested new_world @ [darkSky]"
    by blast
  from d Download_selects_provider [of ?D example_env "example_clock 14 0" no_answer new_world]
  have 3: "requested (snd (Download example_env ?D (example_clock 14 0) no_answer new_world))
             = requested new_world @ [openWeather]"
    by blast
  from 1 2 3 r show ?thesis by simp
qed

text \<open>
  C10. With a country other than \<open>GB\<close> and neither API key set, Download runs no
  branch: it returns without an exception, \<open>metData\<close> is unchanged, no HTTP request
  is issued and no retry is scheduled.
\<close>

theorem Download_no_provider:
  assumes "Station_Country Config \<noteq> ''GB''"
    and "Keys_DarkSky Config = []"
    and "Keys_OpenWeather Config = []"
  shows "fst (Download E Config C http w) = None
     \<and> metData (snd (Download E Config C http w)) = metData w
     \<and> requested (snd (Download E Config C http w)) = requested w
     \<and> scheduled (snd (Download E Config C http w)) = scheduled w"
  using assms by (simp add: Download_def)

theorem Download_no_provider_witness:
  "Station_Country (example_config ''US'' [] []) \<noteq> ''GB''
   \<and> Keys_DarkSky (example_config ''US'' [] []) = []
   \<and> Keys_OpenWeather (example_config ''US'' [] []) = []
   \<and> fst (Download example_env (example_config ''US'' [] []) (example_clock 14 0) no_answer new_world) = None
   \<and> requested (snd (Download example_env (example_config ''US'' [] []) (example_clock 14 0)
                       no_answer new_world)) = []
   \<and> scheduled (snd (Download example_env (example_config ''US'' [] []) (example_clock 14 0)
                       no_answer new_world)) = []"
proof -
  have h: "Station_Country (example_config ''US'' [] []) \<noteq> ''GB''"
    "Keys_DarkSky (example_config ''US'' [] []) = []"
    "Keys_OpenWeather (example_config ''US'' [] []) = []"
    by (simp_all add: example_config_def)
  from Download_no_provider [OF h, of example_env "example_clock 14 0" no_answer new_world] h
  show ?thesis by (simp add: new_world_def)
qed

section \<open>A refused answer\<close>

text \<open>
  C4. When the answer of the selected provider fails the shape check, Download leaves
  the raw data cached in \<open>metData['Dict']\<close> as it is, or stores the empty dictionary
  when there is none, schedules a retry after 600 seconds, and then runs the extraction
  of that provider on the cached raw data: the result of Download is the result of that
  extraction.
\<close>

theorem Download_refused_answer:
  "(Station_Country Config = ''GB'' \<and> \<not> verifyResponse (http metOffice) ''SiteRep'' \<longrightarrow>
      Download E Config C http w =
        ExtractMetOffice E Config C
          \<lparr>metData = (metData w)(''Dict'' \<mapsto> cached_Dict w), scheduled = scheduled w @ [600],
           requested = requested w @ [metOffice]\<rparr>)
   \<and> (Station_Country Config \<noteq> ''GB'' \<and> Keys_DarkSky Config \<noteq> []
        \<and> \<not> verifyResponse (http darkSky) ''hourly'' \<longrightarrow>
      Download E Config C http w =
        ExtractDarkSky E Config C
          \<lparr>metData = (metData w)(''Dict'' \<mapsto> cached_Dict w), scheduled = scheduled w @ [600],
           requested = requested w @ [darkSky]\<rparr>)
   \<and> (Station_Country Config \<noteq> ''GB'' \<and> Keys_DarkSky Config = [] \<and> Keys_OpenWeather Config \<noteq> []
        \<and> \<not> verifyResponse (http openWeather) ''hourly'' \<longrightarrow>
      Download E Config C http w =
        ExtractOpenWeather E Config C
          \<lparr>metData = (metData w)(''Dict'' \<mapsto> cached_Dict w), scheduled = scheduled w @ [600],
           requested = requested w @ [openWeather]\<rparr>)
   \<and> ((Station_Country Config = ''GB'' \<and> \<not> verifyResponse (http metOffice) ''SiteRep'')
        \<or> (Station_Country Config \<noteq> ''GB'' \<and> Keys_DarkSky Config \<noteq> []
             \<and> \<not> verifyResponse (http darkSky) ''hourly'')
        \<or> (Station_Country Config \<noteq> ''GB'' \<and> Keys_DarkSky Config = [] \<and> Keys_OpenWeather Config \<noteq> []
             \<and> \<not> verifyResponse (http openWeather) ''hourly'') \<longrightarrow>
      metData (snd (Download E Config C http w)) ''Dict'' = Some (cached_Dict w)
      \<and> take (Suc (length (scheduled w))) (scheduled (snd (Download E Config C http w)))
          = scheduled w @ [600])"
proof -
  have M: "Station_Country Config = ''GB'' \<Longrightarrow> \<not> verifyResponse (http metOffice) ''SiteRep'' \<Longrightarrow>
      Download E Config C http w =
        ExtractMetOffice E Config C
          \<lparr>metData = (metData w)(''Dict'' \<mapsto> cached_Dict w), scheduled = scheduled w @ [600],
           requested = requested w @ [metOffice]\<rparr>"
    by (simp add: Download_def store_response_refused request_def cached_Dict_def)
  have D: "Station_Country Config \<noteq> ''GB'' \<Longrightarrow> Keys_DarkSky Config \<noteq> [] \<Longrightarrow>
      \<not> verifyResponse (http darkSky) ''hourly'' \<Longrightarrow>
      Download E Config C http w =
        ExtractDarkSky E Config C
          \<lparr>metData = (metData w)(''Dict'' \<mapsto> cached_Dict w), scheduled = scheduled w @ [600],
           requested = requested w @ [darkSky]\<rparr>"
    by (simp add: Download_def store_response_refused request_def cached_Dict_def)
  have O: "Station_Country Config \<noteq> ''GB'' \<Longrightarrow> Keys_DarkSky Config = [] \<Longrightarrow>
      Keys_OpenWeather Config \<noteq> [] \<Longrightarrow> \<not> verifyResponse (http openWeather) ''hourly'' \<Longrightarrow>
      Download E Config C http w =
        ExtractOpenWeather E Config C
          \<lparr>metData = (metData w)(''Dict'' \<mapsto> cached_Dict w), scheduled = scheduled w @ [600],
           requested = requested w @ [openWeather]\<rparr>"
    by (simp add: Download_def store_response_refused request_def cached_Dict_def)
  have pre: "xs = ys \<or> xs = ys @ [600] \<Longrightarrow> ys = zs @ [600::nat] \<Longrightarrow> take (Suc (length zs)) xs = zs @ [600]"
    for xs ys zs by auto
  show ?thesis
    using M D O
      ExtractMetOffice_Dict ExtractDarkSky_Dict ExtractOpenWeather_Dict
      pre [OF ExtractMetOffice_scheduled] pre [OF ExtractDarkSky_scheduled]
      pre [OF ExtractOpenWeather_scheduled]
    by (auto)
qed


theorem Download_refused_answer_witness:
  "Station_Country (example_config ''US'' ''keyA'' []) \<noteq> ''GB''
   \<and> Keys_DarkSky (example_config ''US'' ''keyA'' []) \<noteq> []
   \<and> \<not> verifyResponse (no_answer darkSky) ''hourly''
   \<and> metData (snd (Download example_env (example_config ''US'' ''keyA'' []) (example_clock 14 4000)
                      no_answer (cached_world example_DarkSky))) ''Dict'' = Some example_DarkSky
   \<and> take 1 (scheduled (snd (Download example_env (example_config ''US'' ''keyA'' [])
                      (example_clock 14 4000) no_answer (cached_world example_DarkSky)))) = [600]"
proof -
  let ?A = "example_config ''US'' ''keyA'' []"
  have h: "Station_Country ?A \<noteq> ''GB'' \<and> Keys_DarkSky ?A \<noteq> []
             \<and> \<not> verifyResponse (no_answer darkSky) ''hourly''"
    by (simp add: example_config_def no_answer_def verifyResponse_def)
  have c: "cached_Dict (cached_world example_DarkSky) = example_DarkSky"
    "scheduled (cached_world example_DarkSky) = []"
    by (simp_all add: cached_Dict_def cached_world_def)
  from h Download_refused_answer [of ?A no_answer example_env "example_clock 14 4000"
         "cached_world example_DarkSky"]
  have "metData (snd (Download example_env ?A (example_clock 14 4000) no_answer
                        (cached_world example_DarkSky))) ''Dict''
          = Some (cached_Dict (cached_world example_DarkSky))
        \<and> take (Suc (length (scheduled (cached_world example_DarkSky))))
            (scheduled (snd (Download example_env ?A (example_clock 14 4000) no_answer
                        (cached_world example_DarkSky))))
          = scheduled (cached_world example_DarkSky) @ [600]"
    by blast
  with h c show ?thesis by simp
qed

section \<open>What a fetch writes\<close>

lemma labels_distinct:
  "distinct (map fst (MetOffice_labels C L))"
  "distinct (map fst (DarkSky_labels E C L'))"
  "distinct (map fst (OpenWeather_labels E C L'))"
  by (simp_all add: labels_keys)



lemma ExtractMetOffice_success:
  assumes "ExtractMetOffice E Config C w = (None, w')"
    and "MetOffice_toplevel E (metData w) = Inr (issued, metDict)"
  shows "\<exists>L. MetOffice_locals E Config C issued metDict = Inr L
           \<and> assign_all (MetOffice_labels C L) w = (None, w')"
  using assms by (auto simp: ExtractMetOffice_def split: sum.splits)

lemma ExtractDarkSky_success:
  assumes "ExtractDarkSky E Config C w = (None, w')"
    and "DarkSky_toplevel (metData w) = Inr metDict"
  shows "\<exists>L. DarkSky_locals E Config C metDict = Inr L
           \<and> assign_all (DarkSky_labels E C L) w = (None, w')"
  using assms by (auto simp: ExtractDarkSky_def split: sum.splits)

lemma ExtractOpenWeather_success:
  assumes "ExtractOpenWeather E Config C w = (None, w')"
    and "OpenWeather_toplevel (metData w) = Inr metDict"
  shows "\<exists>L. OpenWeather_locals E Config C metDict = Inr L
           \<and> assign_all (OpenWeather_labels E C L) w = (None, w')"
  using assms by (auto simp: ExtractOpenWeather_def split: sum.splits)










text \<open>Runs of the extractions on the example answers.\<close>

lemma None_result: "fst x = None \<Longrightarrow> x = (None, snd x)"
  by (cases x) simp

lemma example_DarkSky_run:
  "fst (ExtractDarkSky example_env (example_config ''US'' ''keyA'' []) (example_clock 14 4000)
          (cached_world example_DarkSky)) = None"
  "map (metData (snd (ExtractDarkSky example_env (example_config ''US'' ''keyA'' [])
          (example_clock 14 4000) (cached_world example_DarkSky)))) display_fields =
     [Some (PDatetime \<lparr>year = 2020, month = 6, day = 1, hour = 14, minute = 30\<rparr>),
      Some (PStr ''01:00''), Some (PStr ''02:00''), Some (PList [PStr ''12.0'', PStr ''c'']),
      Some (PStr ''N''), Some (PList [PStr ''4'', PStr ''mps'']), Some (PStr ''12''),
      Some (PStr ''35''), Some (PStr ''DarkSky'')]"
  by (simp_all add: model_defs py_defs ex_defs display_fields_def)

lemma example_OpenWeather_run:
  "fst (ExtractOpenWeather example_env (example_config ''US'' [] ''keyB'') (example_clock 14 4000)
          (cached_world example_OpenWeather)) = None"
  "map (metData (snd (ExtractOpenWeather example_env (example_config ''US'' [] ''keyB'')
          (example_clock 14 4000) (cached_world example_OpenWeather)))) display_fields =
     [Some (PDatetime \<lparr>year = 2020, month = 6, day = 1, hour = 14, minute = 30\<rparr>),
      Some (PStr ''01:00''), Some (PStr ''02:00''), Some (PList [PStr ''12.0'', PStr ''c'']),
      Some (PStr ''N''), Some (PList [PStr ''3'', PStr ''mps'']), Some (PStr ''14''),
      Some (PStr ''--''), Some (PStr ''OpenWeather'')]"
  by (simp_all add: model_defs py_defs ex_defs display_fields_def)

lemma example_MetOffice_run:
  "fst (ExtractMetOffice example_env (example_config ''GB'' [] []) (example_clock 14 0)
          (cached_world example_MetOffice)) = None"
  "map (metData (snd (ExtractMetOffice example_env (example_config ''GB'' [] [])
          (example_clock 14 0) (cached_world example_MetOffice)))) display_fields =
     [Some (PDatetime \<lparr>year = 2020, month = 6, day = 1, hour = 14, minute = 30\<rparr>),
      Some (PStr ''13:00''), Some (PStr ''15:00''), Some (PList [PStr ''17.0'', PStr ''c'']),
      Some (PStr ''SW''), Some (PList [PStr ''4'', PStr ''mps'']), Some (PStr ''4''),
      Some (PStr ''5''), Some (PStr ''MetOffice'')]"
  by (simp_all add: model_defs py_defs ex_defs display_fields_def)

lemma example_toplevel:
  "MetOffice_toplevel example_env (metData (cached_world example_MetOffice)) = Inr (''13:00'', example_Period)"
  "DarkSky_toplevel (metData (cached_world example_DarkSky)) = Inr example_DarkSky_data"
  "OpenWeather_toplevel (metData (cached_world example_OpenWeather)) = Inr example_OpenWeather_hourly"
  by (simp_all add: MetOffice_toplevel_def DarkSky_toplevel_def OpenWeather_toplevel_def
        cached_world_def example_MetOffice_def example_DarkSky_def example_OpenWeather_def
        and_then_def getitem_def slice_11_m4_def py_str_def)











section \<open>Exceptions\<close>

text \<open>
  C5. The claim is that no exception leaves Download. It does not hold of the code: the
  handlers catch KeyError raised by the top-level lookup only. With a DarkSky answer whose
  hourly forecasts all start before the current time, the lookup of the time the
  forecast is valid until (\<open>Times[bisect.bisect(Times, now)]\<close>, line 212) raises
  IndexError; with a MetOffice answer whose list of periods does not hold today's date,
  \<open>Dates.index\<close> (line 132) raises ValueError. Both leave Download.
\<close>

theorem Download_raises:
  "fst (Download example_env (example_config ''US'' ''keyA'' []) (example_clock 14 11000)
          (answer example_DarkSky) new_world) = Some IndexError
   \<and> fst (Download example_env (example_config ''GB'' [] []) (example_clock 14 0)
          (answer (PDict [(''SiteRep'', PDict [(''DV'', PDict
             [(''dataDate'', PStr ''2020-06-01T13:00:00Z''),
              (''Location'', PDict [(''Period'', PList [])])])])])) new_world) = Some ValueError"
  by (simp add: model_defs py_defs ex_defs)


section \<open>The values a successful extraction computes\<close>

lemma and_then_Inr: "and_then r f = Inr y \<longleftrightarrow> (\<exists>v. r = Inr v \<and> f v = Inr y)"
  by (cases r) (simp_all add: and_then_def)

lemma MetOffice_locals_Inr:
  "MetOffice_locals E Config C issued metDict = Inr L \<Longrightarrow>
     \<exists>reps Times period valid. MetOffice_today C metDict = Inr reps
        \<and> MetOffice_Times reps = Inr Times
        \<and> MetOffice_period C reps Times = Inr (period, valid)
        \<and> MetOffice_variables E Config issued valid period = Inr L"
  by (auto simp: MetOffice_locals_def and_then_Inr)

lemma MetOffice_variables_Inr:
  "MetOffice_variables E Config issued valid period = Inr L \<Longrightarrow>
     \<exists>Pp W. getitem period ''Pp'' = Inr Pp \<and> getitem period ''W'' = Inr W
        \<and> Issued L = issued \<and> Valid L = valid
        \<and> Precip L = PList [Pp, PStr ''%''] \<and> Weather L = W"
  by (auto simp: MetOffice_variables_def and_then_Inr)

lemma DarkSky_locals_Inr:
  "DarkSky_locals E Config C metDict = Inr L \<Longrightarrow>
     \<exists>Times period iv. hourly_Times ''time'' metDict = Inr Times
        \<and> hourly_period C metDict Times = Inr period
        \<and> hourly_Issued_Valid E C Times = Inr iv
        \<and> DarkSky_variables E Config iv period = Inr L"
  by (auto simp: DarkSky_locals_def and_then_Inr)

lemma DarkSky_variables_Inr:
  "DarkSky_variables E Config iv period = Inr L \<Longrightarrow>
     \<exists>S s P p W. getitem period ''windSpeed'' = Inr S \<and> py_truediv S 2.2369362920544 = Inr s
        \<and> observation_Units E (PList [s, PStr ''mps'']) (Units_Wind Config) = Inr (WindSpd L)
        \<and> getitem period ''precipProbability'' = Inr P \<and> py_mul_100 P = Inr p
        \<and> Precip L = PList [p, PStr ''%'']
        \<and> getitem period ''icon'' = Inr W \<and> Weather L = W"
  by (auto simp: DarkSky_variables_def and_then_Inr)

lemma OpenWeather_locals_Inr:
  "OpenWeather_locals E Config C metDict = Inr L \<Longrightarrow>
     \<exists>Times period iv. hourly_Times ''dt'' metDict = Inr Times
        \<and> hourly_period C metDict Times = Inr period
        \<and> hourly_Issued_Valid E C Times = Inr iv
        \<and> OpenWeather_variables E Config iv period = Inr L"
  by (auto simp: OpenWeather_locals_def and_then_Inr)

lemma OpenWeather_variables_Inr:
  "OpenWeather_variables E Config iv period = Inr L \<Longrightarrow>
     \<exists>S s ws w0 W. getitem period ''wind_speed'' = Inr S \<and> py_mul_float S 0.2778 = Inr s
        \<and> observation_Units E (PList [s, PStr ''mps'']) (Units_Wind Config) = Inr (WindSpd L)
        \<and> getitem period ''weather'' = Inr ws \<and> getitem_int ws 0 = Inr w0
        \<and> getitem w0 ''icon'' = Inr W \<and> Weather L = W"
  by (auto simp: OpenWeather_variables_def and_then_Inr)

text \<open>The label assigned to one key by a completed sequence of assignments.\<close>

lemma assigned_label:
  assumes "assign_all kvs w = (None, w')" and "distinct (map fst kvs)" and "map_of kvs k = Some rhs"
  shows "\<exists>v. rhs = Inr v \<and> metData w' k = Some v"
  using assign_all_None [OF assms(1,2) map_of_SomeD [OF assms(3)]] .

lemma label_Weather:
  "map_of (MetOffice_labels C L) ''Weather'' = Some (Inr (Weather L))"
  "map_of (DarkSky_labels E C L') ''Weather'' = Some (Inr (PStr (DarkSky_icon (Weather L'))))"
  "map_of (OpenWeather_labels E C L') ''Weather''
     = Some (and_then (ICONMAP_get (Weather L')) (\<lambda>c. Inr (PStr c)))"
  by (simp_all add: MetOffice_labels_def DarkSky_labels_def OpenWeather_labels_def)






section \<open>Weather icons\<close>

lemma DarkSky_icon_table:
  "map (\<lambda>k. DarkSky_icon (PStr k))
      [''clear-day'', ''clear-night'', ''rain'', ''snow'', ''sleet'', ''wind'', ''fog'', ''cloudy'',
       ''partly-cloudy-day'', ''partly-cloudy-night'']
     = [''1'', ''0'', ''12'', ''27'', ''18'', ''wind'', ''6'', ''7'', ''3'', ''2'']"
  by (simp add: DarkSky_icon_def)

lemma DarkSky_icon_default:
  "W \<notin> PStr ` set [''clear-day'', ''clear-night'', ''rain'', ''snow'', ''sleet'', ''wind'', ''fog'',
       ''cloudy'', ''partly-cloudy-day'', ''partly-cloudy-night''] \<Longrightarrow>
     DarkSky_icon W = ''ForecastUnavailable''"
  by (simp add: DarkSky_icon_def)

lemma ICONMAP_table:
  "map (\<lambda>k. ICONMAP_get (PStr k))
      [''01n'', ''01d'', ''02n'', ''02d'', ''50d'', ''50n'', ''03d'', ''03n'', ''04d'', ''04n'',
       ''09n'', ''09d'', ''10n'', ''10d'', ''13n'', ''13d'', ''11n'', ''11d'']
     = map Inr [''0'', ''1'', ''2'', ''3'', ''6'', ''6'', ''7'', ''7'', ''8'', ''8'',
       ''9'', ''10'', ''13'', ''14'', ''22'', ''23'', ''28'', ''29'']"
  by (simp add: ICONMAP_get_def ICONMAP_def)

lemma ICONMAP_default:
  assumes "hashable W"
    and "W \<notin> PStr ` set [''01n'', ''01d'', ''02n'', ''02d'', ''50d'', ''50n'', ''03d'', ''03n'',
       ''04d'', ''04n'', ''09n'', ''09d'', ''10n'', ''10d'', ''13n'', ''13d'', ''11n'', ''11d'']"
  shows "ICONMAP_get W = Inr ''ForecastUnavailable''"
proof (cases W)
  case (PStr s)
  with assms(2) have "s \<notin> fst ` set ICONMAP"
    by (auto simp: ICONMAP_def)
  then have "map_of ICONMAP s = None"
    by (simp add: map_of_eq_None_iff)
  with PStr show ?thesis by (simp add: ICONMAP_get_def)
qed (use assms(1) in \<open>simp_all add: ICONMAP_get_def hashable_def\<close>)

text \<open>
  C7. DarkSky's icon names are mapped by the table \<open>clear-day\<close> to 1, \<open>clear-night\<close>
  to 0, \<open>rain\<close> to 12, \<open>snow\<close> to 27, \<open>sleet\<close> to 18, \<open>wind\<close> to \<open>wind\<close>, \<open>fog\<close> to 6,
  \<open>cloudy\<close> to 7, \<open>partly-cloudy-day\<close> to 3, \<open>partly-cloudy-night\<close> to 2, and every
  other value to \<open>ForecastUnavailable\<close>. OpenWeather's icon codes are mapped by the
  table of eighteen entries, and every other value that can be a dictionary key to
  \<open>ForecastUnavailable\<close>. A successful extraction stores in Weather the image of the
  icon of the selected period; the MetOffice extraction stores the code \<open>W\<close> of the
  selected period unchanged.
\<close>

theorem icon_mapping:
  "map (\<lambda>k. DarkSky_icon (PStr k))
      [''clear-day'', ''clear-night'', ''rain'', ''snow'', ''sleet'', ''wind'', ''fog'', ''cloudy'',
       ''partly-cloudy-day'', ''partly-cloudy-night'']
     = [''1'', ''0'', ''12'', ''27'', ''18'', ''wind'', ''6'', ''7'', ''3'', ''2'']
   \<and> (W \<notin> PStr ` set [''clear-day'', ''clear-night'', ''rain'', ''snow'', ''sleet'', ''wind'', ''fog'',
       ''cloudy'', ''partly-cloudy-day'', ''partly-cloudy-night''] \<longrightarrow>
      DarkSky_icon W = ''ForecastUnavailable'')
   \<and> map (\<lambda>k. ICONMAP_get (PStr k))
      [''01n'', ''01d'', ''02n'', ''02d'', ''50d'', ''50n'', ''03d'', ''03n'', ''04d'', ''04n'',
       ''09n'', ''09d'', ''10n'', ''10d'', ''13n'', ''13d'', ''11n'', ''11d'']
     = map Inr [''0'', ''1'', ''2'', ''3'', ''6'', ''6'', ''7'', ''7'', ''8'', ''8'',
       ''9'', ''10'', ''13'', ''14'', ''22'', ''23'', ''28'', ''29'']
   \<and> (hashable W \<and> W \<notin> PStr ` set [''01n'', ''01d'', ''02n'', ''02d'', ''50d'', ''50n'', ''03d'',
       ''03n'', ''04d'', ''04n'', ''09n'', ''09d'', ''10n'', ''10d'', ''13n'', ''13d'', ''11n'', ''11d''] \<longrightarrow>
      ICONMAP_get W = Inr ''ForecastUnavailable'')
   \<and> (ExtractDarkSky E Config C w = (None, w') \<and> DarkSky_toplevel (metData w) = Inr hourly \<longrightarrow>
      (\<exists>Times period icon.
          hourly_Times ''time'' hourly = Inr Times \<and> hourly_period C hourly Times = Inr period
        \<and> getitem period ''icon'' = Inr icon
        \<and> metData w' ''Weather'' = Some (PStr (DarkSky_icon icon))))
   \<and> (ExtractOpenWeather E Config C w = (None, w') \<and> OpenWeather_toplevel (metData w) = Inr hourly \<longrightarrow>
      (\<exists>Times period ws w0 icon code.
          hourly_Times ''dt'' hourly = Inr Times \<and> hourly_period C hourly Times = Inr period
        \<and> getitem period ''weather'' = Inr ws \<and> getitem_int ws 0 = Inr w0
        \<and> getitem w0 ''icon'' = Inr icon \<and> ICONMAP_get icon = Inr code
        \<and> metData w' ''Weather'' = Some (PStr code)))
   \<and> (ExtractMetOffice E Config C w = (None, w')
        \<and> MetOffice_toplevel E (metData w) = Inr (issued, metDict) \<longrightarrow>
      (\<exists>reps Times period valid code.
          MetOffice_today C metDict = Inr reps \<and> MetOffice_Times reps = Inr Times
        \<and> MetOffice_period C reps Times = Inr (period, valid)
        \<and> getitem period ''W'' = Inr code \<and> metData w' ''Weather'' = Some code))"
proof -
  have D: "\<exists>Times period icon.
          hourly_Times ''time'' hourly = Inr Times \<and> hourly_period C hourly Times = Inr period
        \<and> getitem period ''icon'' = Inr icon
        \<and> metData w' ''Weather'' = Some (PStr (DarkSky_icon icon))"
    if "ExtractDarkSky E Config C w = (None, w')" and "DarkSky_toplevel (metData w) = Inr hourly"
  proof -
    from ExtractDarkSky_success [OF that] obtain L
      where L: "DarkSky_locals E Config C hourly = Inr L"
        and a: "assign_all (DarkSky_labels E C L) w = (None, w')" by blast
    from DarkSky_locals_Inr [OF L] obtain Times period iv
      where s: "hourly_Times ''time'' hourly = Inr Times" "hourly_period C hourly Times = Inr period"
        and v: "DarkSky_variables E Config iv period = Inr L" by blast
    from DarkSky_variables_Inr [OF v] obtain icon
      where i: "getitem period ''icon'' = Inr icon" "Weather L = icon" by blast
    from assigned_label [OF a labels_distinct(2) label_Weather(2)] i(2)
    have "metData w' ''Weather'' = Some (PStr (DarkSky_icon icon))" by simp
    with s i(1) show ?thesis by blast
  qed
  have O: "\<exists>Times period ws w0 icon code.
          hourly_Times ''dt'' hourly = Inr Times \<and> hourly_period C hourly Times = Inr period
        \<and> getitem period ''weather'' = Inr ws \<and> getitem_int ws 0 = Inr w0
        \<and> getitem w0 ''icon'' = Inr icon \<and> ICONMAP_get icon = Inr code
        \<and> metData w' ''Weather'' = Some (PStr code)"
    if "ExtractOpenWeather E Config C w = (None, w')"
      and "OpenWeather_toplevel (metData w) = Inr hourly"
  proof -
    from ExtractOpenWeather_success [OF that] obtain L
      where L: "OpenWeather_locals E Config C hourly = Inr L"
        and a: "assign_all (OpenWeather_labels E C L) w = (None, w')" by blast
    from OpenWeather_locals_Inr [OF L] obtain Times period iv
      where s: "hourly_Times ''dt'' hourly = Inr Times" "hourly_period C hourly Times = Inr period"
        and v: "OpenWeather_variables E Config iv period = Inr L" by blast
    from OpenWeather_variables_Inr [OF v] obtain ws w0 icon
      where i: "getitem period ''weather'' = Inr ws" "getitem_int ws 0 = Inr w0"
        "getitem w0 ''icon'' = Inr icon" "Weather L = icon" by blast
    from assigned_label [OF a labels_distinct(3) label_Weather(3)] i(4)
    obtain code where "ICONMAP_get icon = Inr code" "metData w' ''Weather'' = Some (PStr code)"
      by (auto simp: and_then_Inr)
    with s i(1,2,3) show ?thesis by blast
  qed
  have M: "\<exists>reps Times period valid code.
          MetOffice_today C metDict = Inr reps \<and> MetOffice_Times reps = Inr Times
        \<and> MetOffice_period C reps Times = Inr (period, valid)
        \<and> getitem period ''W'' = Inr code \<and> metData w' ''Weather'' = Some code"
    if "ExtractMetOffice E Config C w = (None, w')"
      and "MetOffice_toplevel E (metData w) = Inr (issued, metDict)"
  proof -
    from ExtractMetOffice_success [OF that] obtain L
      where L: "MetOffice_locals E Config C issued metDict = Inr L"
        and a: "assign_all (MetOffice_labels C L) w = (None, w')" by blast
    from MetOffice_locals_Inr [OF L] obtain reps Times period valid
      where s: "MetOffice_today C metDict = Inr reps" "MetOffice_Times reps = Inr Times"
        "MetOffice_period C reps Times = Inr (period, valid)"
        and v: "MetOffice_variables E Config issued valid period = Inr L" by blast
    from MetOffice_variables_Inr [OF v] obtain code
      where c: "getitem period ''W'' = Inr code" "Weather L = code" by blast
    from assigned_label [OF a labels_distinct(1) label_Weather(1)] c(2)
    have "metData w' ''Weather'' = Some code" by simp
    with s c(1) show ?thesis by blast
  qed
  from DarkSky_icon_table DarkSky_icon_default [of W] ICONMAP_table ICONMAP_default [of W] D O M
  show ?thesis by blast
qed

theorem icon_mapping_witness:
  "PStr ''hail'' \<notin> PStr ` set [''clear-day'', ''clear-night'', ''rain'', ''snow'', ''sleet'', ''wind'',
       ''fog'', ''cloudy'', ''partly-cloudy-day'', ''partly-cloudy-night'']
   \<and> DarkSky_icon (PStr ''hail'') = ''ForecastUnavailable''
   \<and> hashable PNone
   \<and> PNone \<notin> PStr ` set [''01n'', ''01d'', ''02n'', ''02d'', ''50d'', ''50n'', ''03d'',
       ''03n'', ''04d'', ''04n'', ''09n'', ''09d'', ''10n'', ''10d'', ''13n'', ''13d'', ''11n'', ''11d'']
   \<and> ICONMAP_get PNone = Inr ''ForecastUnavailable''
   \<and> ExtractDarkSky example_env (example_config ''US'' ''keyA'' []) (example_clock 14 4000)
        (cached_world example_DarkSky)
      = (None, snd (ExtractDarkSky example_env (example_config ''US'' ''keyA'' [])
                     (example_clock 14 4000) (cached_world example_DarkSky)))
   \<and> DarkSky_toplevel (metData (cached_world example_DarkSky)) = Inr example_DarkSky_data
   \<and> (\<exists>icon. metData (snd (ExtractDarkSky example_env (example_config ''US'' ''keyA'' [])
                     (example_clock 14 4000) (cached_world example_DarkSky))) ''Weather''
              = Some (PStr (DarkSky_icon icon)))
   \<and> ExtractOpenWeather example_env (example_config ''US'' [] ''keyB'') (example_clock 14 4000)
        (cached_world example_OpenWeather)
      = (None, snd (ExtractOpenWeather example_env (example_config ''US'' [] ''keyB'')
                     (example_clock 14 4000) (cached_world example_OpenWeather)))
   \<and> OpenWeather_toplevel (metData (cached_world example_OpenWeather)) = Inr example_OpenWeather_hourly
   \<and> (\<exists>icon code. ICONMAP_get icon = Inr code
         \<and> metData (snd (ExtractOpenWeather example_env (example_config ''US'' [] ''keyB'')
                     (example_clock 14 4000) (cached_world example_OpenWeather))) ''Weather''
              = Some (PStr code))
   \<and> ExtractMetOffice example_env (example_config ''GB'' [] []) (example_clock 14 0)
        (cached_world example_MetOffice)
      = (None, snd (ExtractMetOffice example_env (example_config ''GB'' [] []) (example_clock 14 0)
                     (cached_world example_MetOffice)))
   \<and> MetOffice_toplevel example_env (metData (cached_world example_MetOffice))
       = Inr (''13:00'', example_Period)
   \<and> (\<exists>period code. getitem period ''W'' = Inr code
         \<and> metData (snd (ExtractMetOffice example_env (example_config ''GB'' [] []) (example_clock 14 0)
                     (cached_world example_MetOffice))) ''Weather'' = Some code)"
proof -
  let ?D = "ExtractDarkSky example_env (example_config ''US'' ''keyA'' []) (example_clock 14 4000)
              (cached_world example_DarkSky)"
  let ?O = "ExtractOpenWeather example_env (example_config ''US'' [] ''keyB'') (example_clock 14 4000)
              (cached_world example_OpenWeather)"
  let ?M = "ExtractMetOffice example_env (example_config ''GB'' [] []) (example_clock 14 0)
              (cached_world example_MetOffice)"
  have a: "PStr ''hail'' \<notin> PStr ` set [''clear-day'', ''clear-night'', ''rain'', ''snow'', ''sleet'',
       ''wind'', ''fog'', ''cloudy'', ''partly-cloudy-day'', ''partly-cloudy-night'']"
    by simp
  have b: "hashable PNone"
    "PNone \<notin> PStr ` set [''01n'', ''01d'', ''02n'', ''02d'', ''50d'', ''50n'', ''03d'',
       ''03n'', ''04d'', ''04n'', ''09n'', ''09d'', ''10n'', ''10d'', ''13n'', ''13d'', ''11n'', ''11d'']"
    by (auto simp: hashable_def)
  have rD: "?D = (None, snd ?D)" by (rule None_result) (rule example_DarkSky_run(1))
  have rO: "?O = (None, snd ?O)" by (rule None_result) (rule example_OpenWeather_run(1))
  have rM: "?M = (None, snd ?M)" by (rule None_result) (rule example_MetOffice_run(1))
  note t = example_toplevel
  note c2 = icon_mapping [where W = "PStr ''hail''", THEN conjunct2, THEN conjunct1]
  from c2 a have 1: "DarkSky_icon (PStr ''hail'') = ''ForecastUnavailable''" by (rule mp)
  note c4 = icon_mapping [where W = PNone, THEN conjunct2, THEN conjunct2, THEN conjunct2,
      THEN conjunct1]
  from c4 conjI [OF b] have 2: "ICONMAP_get PNone = Inr ''ForecastUnavailable''" by (rule mp)
  note c5 = icon_mapping [where E = example_env and Config = "example_config ''US'' ''keyA'' []"
      and C = "example_clock 14 4000" and w = "cached_world example_DarkSky" and w' = "snd ?D"
      and hourly = example_DarkSky_data, THEN conjunct2, THEN conjunct2, THEN conjunct2,
      THEN conjunct2, THEN conjunct1]
  from c5 conjI [OF rD t(2)]
  have "\<exists>Times period icon.
          hourly_Times ''time'' example_DarkSky_data = Inr Times
        \<and> hourly_period (example_clock 14 4000) example_DarkSky_data Times = Inr period
        \<and> getitem period ''icon'' = Inr icon
        \<and> metData (snd ?D) ''Weather'' = Some (PStr (DarkSky_icon icon))"
    by (rule mp)
  then have 3: "\<exists>icon. metData (snd ?D) ''Weather'' = Some (PStr (DarkSky_icon icon))"
    by (elim exE conjE) (rule exI)
  note c6 = icon_mapping [where E = example_env and Config = "example_config ''US'' [] ''keyB''"
      and C = "example_clock 14 4000" and w = "cached_world example_OpenWeather" and w' = "snd ?O"
      and hourly = example_OpenWeather_hourly, THEN conjunct2, THEN conjunct2, THEN conjunct2,
      THEN conjunct2, THEN conjunct2, THEN conjunct1]
  from c6 conjI [OF rO t(3)]
  have "\<exists>Times period ws w0 icon code.
          hourly_Times ''dt'' example_OpenWeather_hourly = Inr Times
        \<and> hourly_period (example_clock 14 4000) example_OpenWeather_hourly Times = Inr period
        \<and> getitem period ''weather'' = Inr ws \<and> getitem_int ws 0 = Inr w0
        \<and> getitem w0 ''icon'' = Inr icon \<and> ICONMAP_get icon = Inr code
        \<and> metData (snd ?O) ''Weather'' = Some (PStr code)"
    by (rule mp)
  then have 4: "\<exists>icon code. ICONMAP_get icon = Inr code \<and> metData (snd ?O) ''Weather'' = Some (PStr code)"
    by (elim exE conjE) (intro exI conjI)
  note c7 = icon_mapping [where E = example_env and Config = "example_config ''GB'' [] []"
      and C = "example_clock 14 0" and w = "cached_world example_MetOffice" and w' = "snd ?M"
      and issued = "''13:00''" and metDict = example_Period, THEN conjunct2, THEN conjunct2,
      THEN conjunct2, THEN conjunct2, THEN conjunct2, THEN conjunct2]
  from c7 conjI [OF rM t(1)]
  have "\<exists>reps Times period valid code.
          MetOffice_today (example_clock 14 0) example_Period = Inr reps
        \<and> MetOffice_Times reps = Inr Times
        \<and> MetOffice_period (example_clock 14 0) reps Times = Inr (period, valid)
        \<and> getitem period ''W'' = Inr code \<and> metData (snd ?M) ''Weather'' = Some code"
    by (rule mp)
  then have 5: "\<exists>period code. getitem period ''W'' = Inr code \<and> metData (snd ?M) ''Weather'' = Some code"
    by (elim exE conjE) (intro exI conjI)
  show ?thesis
    by (intro conjI) (rule a b 1 2 3 4 5 rD rO rM t)+
qed

section \<open>Wind speed\<close>

text \<open>
  C8, as amended. The DarkSky extraction divides the raw wind speed by 2.2369362920544
  before the conversion to the station's unit: a raw speed of 10 gives a value within
  1e-6 of 4.4704. The OpenWeather extraction multiplies the raw wind speed by 0.2778
  instead: a raw speed of 10 gives 2.778.
\<close>

theorem wind_speed_conversion:
  "(DarkSky_variables E Config iv period = Inr L \<and> getitem period ''windSpeed'' = Inr S \<longrightarrow>
      (\<exists>x. py_number S = Some x
         \<and> observation_Units E (PList [PFloat (x / 2.2369362920544), PStr ''mps'']) (Units_Wind Config)
             = Inr (WindSpd L)))
   \<and> (OpenWeather_variables E Config iv period = Inr L \<and> getitem period ''wind_speed'' = Inr S \<longrightarrow>
      (\<exists>x. py_number S = Some x
         \<and> observation_Units E (PList [PFloat (x * 0.2778), PStr ''mps'']) (Units_Wind Config)
             = Inr (WindSpd L)))
   \<and> (py_number S = Some 10 \<longrightarrow>
      (\<exists>y. py_truediv S 2.2369362920544 = Inr (PFloat y) \<and> \<bar>y - 4.4704\<bar> \<le> 1 / 10 ^ 6)
      \<and> py_mul_float S 0.2778 = Inr (PFloat 2.778))"
proof -
  have D: "\<exists>x. py_number S = Some x
         \<and> observation_Units E (PList [PFloat (x / 2.2369362920544), PStr ''mps'']) (Units_Wind Config)
             = Inr (WindSpd L)"
    if "DarkSky_variables E Config iv period = Inr L" and "getitem period ''windSpeed'' = Inr S"
    using DarkSky_variables_Inr [OF that(1)] that(2)
    by (auto simp: py_truediv_def split: option.splits)
  have O: "\<exists>x. py_number S = Some x
         \<and> observation_Units E (PList [PFloat (x * 0.2778), PStr ''mps'']) (Units_Wind Config)
             = Inr (WindSpd L)"
    if "OpenWeather_variables E Config iv period = Inr L" and "getitem period ''wind_speed'' = Inr S"
    using OpenWeather_variables_Inr [OF that(1)] that(2)
    by (auto simp: py_mul_float_def split: option.splits)
  have T: "(\<exists>y. py_truediv S 2.2369362920544 = Inr (PFloat y) \<and> \<bar>y - 4.4704\<bar> \<le> 1 / 10 ^ 6)
      \<and> py_mul_float S 0.2778 = Inr (PFloat 2.778)"
    if "py_number S = Some 10"
  proof -
    have "py_truediv S 2.2369362920544 = Inr (PFloat (10 / 2.2369362920544))"
      using that by (simp add: py_truediv_def)
    moreover have "\<bar>(10 / 2.2369362920544 :: rat) - 4.4704\<bar> \<le> 1 / 10 ^ 6"
      by simp
    moreover have "py_mul_float S 0.2778 = Inr (PFloat 2.778)"
      using that by (simp add: py_mul_float_def)
    ultimately show ?thesis by blast
  qed
  from D O T show ?thesis by blast
qed

lemma example_variables:
  "DarkSky_variables example_env (example_config ''US'' ''keyA'' [])
     (Now (example_clock 14 0), Now (example_clock 14 0)) (example_DarkSky_hour 3600 ''rain'')
   = Inr \<lparr>Issued = Now (example_clock 14 0), Valid = Now (example_clock 14 0),
          Temp = PList [PFloat 12, PStr ''c''],
          WindSpd = PList [PFloat (10 / 2.2369362920544), PStr ''mps''],
          WindDir = PList [PInt 180, PStr ''degrees''], Precip = PList [PFloat 35, PStr ''%''],
          Weather = PStr ''rain''\<rparr>"
  "OpenWeather_variables example_env (example_config ''US'' [] ''keyB'')
     (Now (example_clock 14 0), Now (example_clock 14 0)) (example_OpenWeather_hour 3600 ''10d'')
   = Inr \<lparr>Issued = Now (example_clock 14 0), Valid = Now (example_clock 14 0),
          Temp = PList [PFloat 12, PStr ''c''],
          WindSpd = PList [PFloat (10 * 0.2778), PStr ''mps''],
          WindDir = PList [PInt 180, PStr ''degrees''], Precip = PStr ''--'',
          Weather = PStr ''10d''\<rparr>"
  by (simp_all add: DarkSky_variables_def OpenWeather_variables_def py_defs ex_defs)

theorem wind_speed_conversion_witness:
  "py_number (PInt 10) = Some 10
   \<and> (\<exists>y. py_truediv (PInt 10) 2.2369362920544 = Inr (PFloat y) \<and> \<bar>y - 4.4704\<bar> \<le> 1 / 10 ^ 6)
   \<and> py_mul_float (PInt 10) 0.2778 = Inr (PFloat 2.778)
   \<and> getitem (example_DarkSky_hour 3600 ''rain'') ''windSpeed'' = Inr (PInt 10)
   \<and> getitem (example_OpenWeather_hour 3600 ''10d'') ''wind_speed'' = Inr (PInt 10)
   \<and> (\<exists>x. py_number (PInt 10) = Some x
         \<and> observation_Units example_env (PList [PFloat (x / 2.2369362920544), PStr ''mps''])
              (Units_Wind (example_config ''US'' ''keyA'' []))
            = Inr (PList [PFloat (10 / 2.2369362920544), PStr ''mps'']))
   \<and> (\<exists>x. py_number (PInt 10) = Some x
         \<and> observation_Units example_env (PList [PFloat (x * 0.2778), PStr ''mps''])
              (Units_Wind (example_config ''US'' [] ''keyB''))
            = Inr (PList [PFloat (10 * 0.2778), PStr ''mps'']))"
proof -
  have n: "py_number (PInt 10) = Some 10" by (simp add: py_number_def)
  have g: "getitem (example_DarkSky_hour 3600 ''rain'') ''windSpeed'' = Inr (PInt 10)"
    "getitem (example_OpenWeather_hour 3600 ''10d'') ''wind_speed'' = Inr (PInt 10)"
    by (simp_all add: getitem_def example_DarkSky_hour_def example_OpenWeather_hour_def)
  let ?LD = "\<lparr>Issued = Now (example_clock 14 0), Valid = Now (example_clock 14 0),
          Temp = PList [PFloat 12, PStr ''c''],
          WindSpd = PList [PFloat (10 / 2.2369362920544), PStr ''mps''],
          WindDir = PList [PInt 180, PStr ''degrees''], Precip = PList [PFloat 35, PStr ''%''],
          Weather = PStr ''rain''\<rparr>"
  let ?LO = "\<lparr>Issued = Now (example_clock 14 0), Valid = Now (example_clock 14 0),
          Temp = PList [PFloat 12, PStr ''c''],
          WindSpd = PList [PFloat (10 * 0.2778), PStr ''mps''],
          WindDir = PList [PInt 180, PStr ''degrees''], Precip = PStr ''--'',
          Weather = PStr ''10d''\<rparr>"
  note v = example_variables
  note c3 = wind_speed_conversion [where S = "PInt 10", THEN conjunct2, THEN conjunct2]
  from c3 n
  have 1: "(\<exists>y. py_truediv (PInt 10) 2.2369362920544 = Inr (PFloat y) \<and> \<bar>y - 4.4704\<bar> \<le> 1 / 10 ^ 6)
      \<and> py_mul_float (PInt 10) 0.2778 = Inr (PFloat 2.778)"
    by (rule mp)
  note c1 = wind_speed_conversion [where S = "PInt 10" and E = example_env
      and Config = "example_config ''US'' ''keyA'' []"
      and iv = "(Now (example_clock 14 0), Now (example_clock 14 0))"
      and period = "example_DarkSky_hour 3600 ''rain''" and L = ?LD, THEN conjunct1]
  from c1 conjI [OF v(1) g(1)]
  have "\<exists>x. py_number (PInt 10) = Some x
         \<and> observation_Units example_env (PList [PFloat (x / 2.2369362920544), PStr ''mps''])
              (Units_Wind (example_config ''US'' ''keyA'' []))
            = Inr (WindSpd ?LD)"
    by (rule mp)
  then have 2: "\<exists>x. py_number (PInt 10) = Some x
         \<and> observation_Units example_env (PList [PFloat (x / 2.2369362920544), PStr ''mps''])
              (Units_Wind (example_config ''US'' ''keyA'' []))
            = Inr (PList [PFloat (10 / 2.2369362920544), PStr ''mps''])"
    by (simp only: variables.select_convs)
  note c2 = wind_speed_conversion [where S = "PInt 10" and E = example_env
      and Config = "example_config ''US'' [] ''keyB''"
      and iv = "(Now (example_clock 14 0), Now (example_clock 14 0))"
      and period = "example_OpenWeather_hour 3600 ''10d''" and L = ?LO, THEN conjunct2,
      THEN conjunct1]
  from c2 conjI [OF v(2) g(2)]
  have "\<exists>x. py_number (PInt 10) = Some x
         \<and> observation_Units example_env (PList [PFloat (x * 0.2778), PStr ''mps''])
              (Units_Wind (example_config ''US'' [] ''keyB''))
            = Inr (WindSpd ?LO)"
    by (rule mp)
  then have 3: "\<exists>x. py_number (PInt 10) = Some x
         \<and> observation_Units example_env (PList [PFloat (x * 0.2778), PStr ''mps''])
              (Units_Wind (example_config ''US'' [] ''keyB''))
            = Inr (PList [PFloat (10 * 0.2778), PStr ''mps''])"
    by (simp only: variables.select_convs)
  show ?thesis
    by (intro conjI) (rule n g 1 [THEN conjunct1] 1 [THEN conjunct2] 2 3)+
qed

text \<open>The claim as stated fails for OpenWeather: with no unit conversion, a raw speed of
  10 leaves the extraction as 2.778, which is not within 1e-6 of 4.4704.\<close>

theorem OpenWeather_wind_speed:
  "map_sum id WindSpd
     (OpenWeather_variables example_env (example_config ''US'' [] ''keyB'')
        (Now (example_clock 14 0), Now (example_clock 14 0)) (example_OpenWeather_hour 3600 ''10d''))
     = Inr (PList [PFloat (2778 / 1000), PStr ''mps''])
   \<and> \<not> \<bar>(2778 / 1000 :: rat) - 4.4704\<bar> \<le> 1 / 10 ^ 6"
  by (simp add: model_defs py_defs ex_defs)

section \<open>The current period of the MetOffice forecast\<close>














end
